theory Spec2Isabelle
  imports Main "HOL-Library.Word"
begin

unbundle bit_operations_syntax

section \<open>Machine types\<close>

text \<open>
  Bytes of the image buffer are \<open>uint8_t\<close>, all intermediate arithmetic of the
  scalar helpers is done in \<open>uint32_t\<close> or \<open>int32_t\<close>.  Both 32-bit types are
  modelled by \<open>32 word\<close>; signed comparisons and the arithmetic right shift are
  written with \<open>\<le>s\<close> and \<open>signed_drop_bit\<close>.
\<close>

type_synonym u8 = "8 word"
type_synonym u16 = "16 word"
type_synonym u32 = "32 word"

section \<open>Scalar helpers (part\_001, lines 19--115)\<close>

text \<open>\<open>Min<uint32_t>\<close> and \<open>Max<uint32_t>\<close>: unsigned comparison.\<close>

definition Min_u32 :: "u32 \<Rightarrow> u32 \<Rightarrow> u32" where
  "Min_u32 a b = (if a < b then a else b)"

definition Max_u32 :: "u32 \<Rightarrow> u32 \<Rightarrow> u32" where
  "Max_u32 a b = (if a > b then a else b)"

text \<open>\<open>Sum\<close>: add in 32 bits, mask with \<open>0xFF\<close>, cast to a byte.\<close>

definition Sum_u8 :: "u32 \<Rightarrow> u32 \<Rightarrow> u8" where
  "Sum_u8 a b = ucast ((a + b) AND 0xFF)"

text \<open>\<open>UDiv3\<close> takes and returns \<open>int32_t\<close>; \<open>>>\<close> on it is the arithmetic shift.\<close>

definition UDiv3 :: "u32 \<Rightarrow> u32" where
  "UDiv3 x = signed_drop_bit 9 (x * 0xAB)"

definition Abs :: "u32 \<Rightarrow> u32" where
  "Abs x = (if 0 \<le>s x then x else - x)"

text \<open>\<open>Avg\<close> works on \<open>uint32_t\<close>: the shift is logical and nothing is added before it.\<close>

definition Avg :: "u32 \<Rightarrow> u32 \<Rightarrow> u32" where
  "Avg a b = drop_bit 1 (a + b)"

text \<open>The parameters of \<open>PaethRef\<close> are declared in the order \<open>(b, a, c)\<close>.\<close>

definition PaethRef :: "u32 \<Rightarrow> u32 \<Rightarrow> u32 \<Rightarrow> u32" where
  "PaethRef b a c =
    (let pa = b - c; pb = a - c; pc = pa + pb;
         pa = Abs pa; pb = Abs pb; pc = Abs pc
     in if pa \<le>s pb \<and> pa \<le>s pc then a else if pb \<le>s pc then b else c)"

definition PaethOpt :: "u32 \<Rightarrow> u32 \<Rightarrow> u32 \<Rightarrow> u32" where
  "PaethOpt a b c =
    (let minAB = Min_u32 a b; maxAB = Max_u32 a b;
         divAB = UDiv3 (maxAB - minAB);
         minAB = minAB - c; maxAB = maxAB - c
     in c + (maxAB AND NOT (signed_drop_bit 31 (divAB + minAB)))
          + (minAB AND NOT (signed_drop_bit 31 (divAB - maxAB))))"

section \<open>Auxiliary notions used in the proofs\<close>

text \<open>
  A 32-bit value is read as the integer it stands for; \<open>small\<close> bounds the integers
  for which no 32-bit operation of the helpers can wrap.
\<close>

definition i32 :: "int \<Rightarrow> u32" where
  "i32 k = word_of_int k"

definition small :: "int \<Rightarrow> bool" where
  "small k \<longleftrightarrow> - 100000 \<le> k \<and> k \<le> 100000"

definition byte_val :: "int \<Rightarrow> bool" where
  "byte_val k \<longleftrightarrow> 0 \<le> k \<and> k \<le> 255"

text \<open>The two Paeth predictors written over the integers.\<close>

definition paeth_ref_int :: "int \<Rightarrow> int \<Rightarrow> int \<Rightarrow> int" where
  "paeth_ref_int b a c =
     (if \<bar>b - c\<bar> \<le> \<bar>a - c\<bar> \<and> \<bar>b - c\<bar> \<le> \<bar>b - c + (a - c)\<bar> then a
      else if \<bar>a - c\<bar> \<le> \<bar>b - c + (a - c)\<bar> then b else c)"

definition paeth_opt_int :: "int \<Rightarrow> int \<Rightarrow> int \<Rightarrow> int" where
  "paeth_opt_int a b c =
     c + (if (max a b - min a b) div 3 + (min a b - c) < 0 then 0 else max a b - c)
       + (if (max a b - min a b) div 3 - (max a b - c) < 0 then 0 else min a b - c)"


section \<open>Memory\<close>

text \<open>
  The kernels work in place through raw pointers.  Memory is a store from addresses to
  bytes; a pointer is an address.  The previous-row cursor \<open>u\<close> starts as \<open>NULL\<close>, so it
  is an optional address, and a read through \<open>NULL\<close> is the fault \<open>NullDeref\<close>.
\<close>

type_synonym mem = "nat \<Rightarrow> u8"

datatype fault = NullDeref

text \<open>The bytes \<open>m[a], \<dots>, m[a + n - 1]\<close>, and a store holding a given buffer at \<open>a\<close>.\<close>

definition buf :: "mem \<Rightarrow> nat \<Rightarrow> nat \<Rightarrow> u8 list" where
  "buf m a n = map (\<lambda>k. m (a + k)) [0..<n]"

definition store_list :: "nat \<Rightarrow> u8 list \<Rightarrow> mem \<Rightarrow> mem" where
  "store_list a xs m = (\<lambda>k. if a \<le> k \<and> k < a + length xs then xs ! (k - a) else m k)"

definition zero_mem :: mem where
  "zero_mem = (\<lambda>a. 0)"

text \<open>\<open>--x\<close> and \<open>a - b\<close> on \<open>uint32_t\<close>, over the naturals below \<open>2 ^ 32\<close>.\<close>

definition dec32 :: "nat \<Rightarrow> nat" where
  "dec32 x = (if x = 0 then 2 ^ 32 - 1 else x - 1)"

definition sub32 :: "nat \<Rightarrow> nat \<Rightarrow> nat" where
  "sub32 a b = (if b \<le> a then a - b else a + 2 ^ 32 - b)"

section \<open>The test harness (part\_002)\<close>

definition kPngFilterCount :: nat where
  "kPngFilterCount = 5"

definition OptDePngRandomData :: "u8 list" where
  "OptDePngRandomData =
     [0xD9, 0xFA, 0xA7, 0x20, 0x6B, 0xD3, 0x41, 0xC9, 0x1A, 0x27, 0x2F, 0x64, 0x59] @
     [0x85, 0x47, 0x1C, 0xFC, 0x3E, 0xA3, 0x5B, 0x3C, 0xD2, 0xB5, 0xB6, 0x80, 0xBB] @
     [0x84, 0x3C, 0xD4, 0x94, 0x3A, 0x6D, 0xC2, 0x1B, 0x3D, 0x5F, 0x82, 0xD9, 0x1A] @
     [0x7F, 0xC6, 0x8D, 0x39, 0xDD, 0x07, 0xAD, 0x7A, 0x40, 0x8D, 0x37, 0x56, 0x12] @
     [0x8B, 0x51, 0xAF, 0x9D, 0x17, 0xBD, 0xD0, 0x61, 0x58, 0xC8, 0x05, 0x44, 0x9B] @
     [0xCA, 0xD4, 0xD0, 0xD0, 0xB9, 0x83, 0x75, 0x31, 0x4B, 0x09, 0xEC, 0x52, 0xEB] @
     [0xE5, 0xE8, 0xAA, 0xF6, 0xDD, 0x79, 0x36, 0x61, 0x17, 0xB1, 0x8A, 0x48, 0x00] @
     [0x1A, 0x9D, 0xDC, 0x51, 0x9F, 0x34, 0x7A, 0x48, 0x56, 0xC9, 0xF3, 0x6A, 0x81] @
     [0x9B, 0x47, 0x56, 0x64, 0x00, 0x30, 0x60, 0x04, 0x90, 0x4B, 0xC2, 0x48, 0xE3] @
     [0xED, 0x62, 0xDF, 0x46, 0xEF, 0xFF, 0xFF, 0xFF, 0xFF, 0xFF, 0xFF, 0xFF, 0xFF] @
     [0xFE, 0x94, 0xEE, 0x00, 0xA9, 0x3B, 0x86, 0x9B, 0xD8, 0xEE, 0x3D, 0x9E, 0x32] @
     [0x00, 0x00, 0x00, 0x00, 0x92, 0x61, 0x9F, 0x3B, 0x22, 0xB0, 0xB9, 0xB3, 0xB0] @
     [0x01, 0x01, 0x01, 0x01, 0xF4, 0x83, 0xFC, 0x49, 0xA9, 0xD2, 0x89, 0xE0, 0x17] @
     [0x74, 0x3E, 0xBD, 0x28, 0x74, 0x5E, 0xF8, 0x6D, 0xD2, 0x43, 0xB7, 0x5A, 0xB5] @
     [0xE6, 0xA4, 0xC7, 0xA4, 0x46, 0xD3, 0x00, 0x1A, 0x26, 0x0C, 0x65, 0x24, 0xAD] @
     [0xA7, 0xEA, 0xF4, 0xBD, 0xF6, 0x63, 0x2B, 0xEC, 0x1E, 0xDF, 0x0C, 0xBD, 0x50] @
     [0xEB, 0x71, 0xD9, 0x86, 0x31, 0x62, 0x5E, 0xE7, 0x4D, 0x8B, 0xD1, 0x11, 0x5B] @
     [0x26, 0x48, 0x9F, 0x8E, 0xE6, 0x7B, 0xE1, 0x0C, 0xF8, 0xCD, 0xF8, 0x90, 0x1E] @
     [0x4E, 0x24, 0xFE, 0x90, 0xD3, 0xA2, 0x2D, 0xFC, 0x4F, 0x3A, 0x2F, 0x1B, 0xE2] @
     [0xB8, 0xBF, 0x11, 0x68, 0x80, 0xCB, 0x26, 0xAD, 0x1C, 0x58, 0x4E, 0x57, 0x30] @
     [0x00, 0x00, 0x00, 0x86, 0x4A, 0x50, 0x36, 0x90, 0x5C, 0x40, 0xA7, 0x38, 0x92] @
     [0x03, 0xF0, 0x39, 0x82, 0x40, 0xED, 0x39, 0x22, 0x82, 0x90, 0x67, 0xDF, 0x95] @
     [0x34, 0x15, 0x8A, 0x0F, 0x25, 0x94, 0x56, 0xFD, 0x38, 0x85, 0x9B, 0x06, 0x22]"

text \<open>\<open>x\<close> is below \<open>count = 299\<close> and \<open>advance\<close> is 1 or 2: the sum cannot wrap.\<close>

definition OptDePngRandomWrap :: "nat \<Rightarrow> nat \<Rightarrow> nat \<Rightarrow> nat" where
  "OptDePngRandomWrap x advance count = (let x = x + advance in if x < count then x else x - count)"

text \<open>
  The inner \<open>for (;;)\<close> loop of \<open>OptDePngRandomImage\<close>: it stores two bytes per round
  and leaves when \<open>--x\<close> reaches zero.  The state is the store, the write pointer and
  the two table indices.
\<close>

function random_pixels :: "nat \<Rightarrow> mem \<Rightarrow> nat \<Rightarrow> nat \<Rightarrow> nat \<Rightarrow> mem \<times> nat \<times> nat \<times> nat" where
  "random_pixels x m p rIndex0 rIndex1 =
    (let rCount = length OptDePngRandomData;
         m = m(p := OptDePngRandomData ! rIndex0); p = p + 1;
         rIndex0 = OptDePngRandomWrap rIndex0 1 rCount;
         x = dec32 x
     in if x = 0 then (m, p, rIndex0, rIndex1)
        else
          let m = m(p := OptDePngRandomData ! rIndex1); p = p + 1;
              rIndex1 = OptDePngRandomWrap rIndex1 2 rCount;
              x = dec32 x
          in if x = 0 then (m, p, rIndex0, rIndex1)
             else random_pixels x m p rIndex0 rIndex1)"
  by pat_completeness auto
termination
  by (relation "measure (\<lambda>(x, m, p, r0, r1). if x = 0 then 2 ^ 32 else x)")
     (auto simp: dec32_def split: if_splits)

declare random_pixels.simps [simp del]

text \<open>
  The filter byte of row \<open>y\<close> and the new value of the cycling counter \<open>f\<close>
  (\<open>++f\<close> is a \<open>uint32_t\<close> increment, the cast to \<open>uint8_t\<close> keeps the low byte).
\<close>

definition random_filter :: "nat \<Rightarrow> nat \<Rightarrow> nat \<Rightarrow> u8 \<times> nat" where
  "random_filter filter' y f =
    (if y = 0 then (0, f)
     else if filter' < kPngFilterCount then (of_nat filter', f)
     else let f = (f + 1) mod 2 ^ 32; f = (if f \<ge> kPngFilterCount then 0 else f)
          in (of_nat f, f))"

text \<open>The outer loop \<open>for (y = 0; y < h; y++)\<close>.\<close>

function random_rows ::
  "nat \<Rightarrow> nat \<Rightarrow> nat \<Rightarrow> nat \<Rightarrow> mem \<Rightarrow> nat \<Rightarrow> nat \<Rightarrow> nat \<Rightarrow> nat \<Rightarrow> mem" where
  "random_rows filter' w h y m p f rIndex0 rIndex1 =
    (if y < h then
       let (b, f) = random_filter filter' y f;
           m = m(p := b); p = p + 1;
           (m, p, rIndex0, rIndex1) = random_pixels w m p rIndex0 rIndex1
       in random_rows filter' w h (y + 1) m p f rIndex0 rIndex1
     else m)"
  by pat_completeness auto
termination
  by (relation "measure (\<lambda>(filter', w, h, y, r). h - y)") auto

declare random_rows.simps [simp del]

text \<open>
  \<open>OptDePngRandomImage\<close>.  The result of \<open>malloc\<close> is a parameter: \<open>None\<close> is \<open>NULL\<close>,
  and then the function returns \<open>NULL\<close>; \<open>m\<close> is the store before the call, whose
  contents at the new block are arbitrary.  The function returns the block's address and
  the store.  \<open>seed * 33\<close>, \<open>w *= bpp\<close> and \<open>(w + 1) * h\<close> are \<open>uint32_t\<close> products.
  The block has no bound in the store: the model follows the code as long as the code
  stays inside the \<open>size\<close> bytes it asked for, which it does when \<open>w * bpp\<close> is not
  zero as a \<open>uint32_t\<close> and \<open>(w + 1) * h\<close> does not wrap.
\<close>

definition random_size :: "nat \<Rightarrow> nat \<Rightarrow> nat \<Rightarrow> nat" where
  "random_size w h bpp = (((w * bpp) mod 2 ^ 32 + 1) * h) mod 2 ^ 32"

definition OptDePngRandomImage ::
  "nat option \<Rightarrow> mem \<Rightarrow> nat \<Rightarrow> nat \<Rightarrow> nat \<Rightarrow> nat \<Rightarrow> nat \<Rightarrow> (nat \<times> mem) option" where
  "OptDePngRandomImage malloc_result m w h bpp filter' seed =
    (let rCount = length OptDePngRandomData;
         rIndex0 = seed mod rCount;
         rIndex1 = ((seed * 33) mod 2 ^ 32) mod rCount;
         w = (w * bpp) mod 2 ^ 32
     in case malloc_result of
          None \<Rightarrow> None
        | Some pImage \<Rightarrow> Some (pImage, random_rows filter' w h 0 m pImage filter' rIndex0 rIndex1))"

text \<open>
  \<open>OptDePngCompare\<close> only reads.  Both buffers live in the store \<open>m\<close>.  The messages it
  prints are left out; the result is the returned \<open>bool\<close>.  The two inner loops compare
  \<open>w\<close> pixels of \<open>bpp\<close> bytes and leave with \<open>false\<close> at the first difference.
\<close>

fun compare_bytes :: "mem \<Rightarrow> nat \<Rightarrow> nat \<Rightarrow> nat \<Rightarrow> nat \<Rightarrow> bool" where
  "compare_bytes m pA pB i 0 = True"
| "compare_bytes m pA pB i (Suc n) =
    (if m (pA + i) \<noteq> m (pB + i) then False else compare_bytes m pA pB (i + 1) n)"

fun compare_pixels :: "mem \<Rightarrow> nat \<Rightarrow> nat \<Rightarrow> nat \<Rightarrow> nat \<Rightarrow> (nat \<times> nat) option" where
  "compare_pixels m pA pB bpp 0 = Some (pA, pB)"
| "compare_pixels m pA pB bpp (Suc x) =
    (if \<not> compare_bytes m pA pB 0 bpp then None
     else compare_pixels m (pA + bpp) (pB + bpp) bpp x)"

fun compare_rows :: "mem \<Rightarrow> nat \<Rightarrow> nat \<Rightarrow> nat \<Rightarrow> nat \<Rightarrow> nat \<Rightarrow> bool" where
  "compare_rows m pA pB w bpp 0 = True"
| "compare_rows m pA pB w bpp (Suc y) =
    (let aFilter = unat (m pA); bFilter = unat (m pB)
     in if aFilter \<noteq> bFilter then False
        else if aFilter \<ge> kPngFilterCount then False
        else case compare_pixels m (pA + 1) (pB + 1) bpp w of
               None \<Rightarrow> False
             | Some (pA, pB) \<Rightarrow> compare_rows m pA pB w bpp y)"

definition OptDePngCompare :: "mem \<Rightarrow> nat \<Rightarrow> nat \<Rightarrow> nat \<Rightarrow> nat \<Rightarrow> nat \<Rightarrow> nat \<Rightarrow> bool" where
  "OptDePngCompare m pA pB w h bpp bpl =
    (if bpl \<noteq> (w * bpp + 1) mod 2 ^ 32 then False
     else compare_rows m pA pB w bpp h)"


section \<open>The reference kernel (part\_001, lines 121--177)\<close>

text \<open>
  Every inner loop of the kernels is a recursive function over the store and the
  cursors.  A loop \<open>for (i = n; i != 0; i--, p++)\<close> runs \<open>n\<close> times; it is written by
  recursion on \<open>n\<close>.  Bytes are promoted to 32 bits (\<open>ucast\<close>) before the helpers
  are applied, as the C++ does.
\<close>

text \<open>\<open>for (i = bpl - bpp; i != 0; i--, p++) p[bpp] = Sum(p[bpp], p[0]);\<close>\<close>

fun sub_loop :: "nat \<Rightarrow> nat \<Rightarrow> mem \<Rightarrow> nat \<Rightarrow> mem \<times> nat" where
  "sub_loop bpp 0 m p = (m, p)"
| "sub_loop bpp (Suc i) m p =
     sub_loop bpp i (m(p + bpp := Sum_u8 (ucast (m (p + bpp))) (ucast (m p)))) (p + 1)"

text \<open>\<open>for (i = bpl; i != 0; i--, p++, u++) p[0] = Sum(p[0], u[0]);\<close>\<close>

fun up_loop :: "nat \<Rightarrow> mem \<Rightarrow> nat \<Rightarrow> nat \<Rightarrow> mem \<times> nat \<times> nat" where
  "up_loop 0 m p u = (m, p, u)"
| "up_loop (Suc i) m p u =
     up_loop i (m(p := Sum_u8 (ucast (m p)) (ucast (m u)))) (p + 1) (u + 1)"

text \<open>
  \<open>for (i = 0; i < bpp; i++) p[i] = Sum(p[i], u[i] >> 1);\<close> The loop runs from index
  \<open>i\<close> for \<open>n\<close> more rounds.
\<close>

fun avg_head :: "nat \<Rightarrow> nat \<Rightarrow> mem \<Rightarrow> nat \<Rightarrow> nat \<Rightarrow> mem" where
  "avg_head i 0 m p u = m"
| "avg_head i (Suc n) m p u =
     avg_head (i + 1) n (m(p + i := Sum_u8 (ucast (m (p + i))) (drop_bit 1 (ucast (m (u + i)))))) p u"

text \<open>\<open>for (i = bpl - bpp; i != 0; i--, p++, u++) p[bpp] = Sum(p[bpp], Avg(p[0], u[0]));\<close>\<close>

fun avg_loop :: "nat \<Rightarrow> nat \<Rightarrow> mem \<Rightarrow> nat \<Rightarrow> nat \<Rightarrow> mem \<times> nat \<times> nat" where
  "avg_loop bpp 0 m p u = (m, p, u)"
| "avg_loop bpp (Suc i) m p u =
     avg_loop bpp i
       (m(p + bpp := Sum_u8 (ucast (m (p + bpp))) (Avg (ucast (m p)) (ucast (m u))))) (p + 1) (u + 1)"

text \<open>\<open>for (i = 0; i < bpp; i++) p[i] = Sum(p[i], u[i]);\<close>\<close>

fun paeth_head :: "nat \<Rightarrow> nat \<Rightarrow> mem \<Rightarrow> nat \<Rightarrow> nat \<Rightarrow> mem" where
  "paeth_head i 0 m p u = m"
| "paeth_head i (Suc n) m p u =
     paeth_head (i + 1) n (m(p + i := Sum_u8 (ucast (m (p + i))) (ucast (m (u + i))))) p u"

text \<open>
  \<open>for (i = bpl - bpp; i != 0; i--, p++, u++)
      p[bpp] = Sum(p[bpp], PaethRef(p[0], u[bpp], u[0]));\<close>
\<close>

fun paeth_loop :: "nat \<Rightarrow> nat \<Rightarrow> mem \<Rightarrow> nat \<Rightarrow> nat \<Rightarrow> mem \<times> nat \<times> nat" where
  "paeth_loop bpp 0 m p u = (m, p, u)"
| "paeth_loop bpp (Suc i) m p u =
     paeth_loop bpp i
       (m(p + bpp := Sum_u8 (ucast (m (p + bpp)))
                         (PaethRef (ucast (m p)) (ucast (m (u + bpp))) (ucast (m u)))))
       (p + 1) (u + 1)"

text \<open>
  Code that reads through \<open>u\<close>.  \<open>reads\<close> says whether the code runs at least one read
  through \<open>u\<close>: then a \<open>NULL\<close> cursor is a fault.  Code that never reads through \<open>u\<close>
  computes the same with any value of \<open>u\<close>.
\<close>

definition with_u :: "bool \<Rightarrow> nat option \<Rightarrow> (nat \<Rightarrow> 'a) \<Rightarrow> fault + 'a" where
  "with_u reads u k =
     (case u of Some a \<Rightarrow> Inr (k a)
              | None \<Rightarrow> if reads then Inl NullDeref else Inr (k 0))"

text \<open>
  One round of the \<open>do \<dots> while\<close> loop after \<open>filter = *p++\<close>: the \<open>switch\<close>.  \<open>bpl\<close> has
  been decremented already.  The result is the store and the position of \<open>p\<close> behind the
  row.  The \<open>switch\<close> has no \<open>default\<close>: any other filter byte leaves \<open>p\<close> where it is.
\<close>

definition ref_row ::
  "nat \<Rightarrow> nat \<Rightarrow> nat \<Rightarrow> mem \<Rightarrow> nat \<Rightarrow> nat option \<Rightarrow> fault + (mem \<times> nat)" where
  "ref_row bpp bpl filter' m p u =
    (if filter' = 0 then Inr (m, p + bpl)
     else if filter' = 1 then
       (let (m, p) = sub_loop bpp (sub32 bpl bpp) m p in Inr (m, p + bpp))
     else if filter' = 2 then
       with_u (bpl \<noteq> 0) u (\<lambda>u. let (m, p, u) = up_loop bpl m p u in (m, p))
     else if filter' = 3 then
       with_u (bpp \<noteq> 0 \<or> sub32 bpl bpp \<noteq> 0) u
         (\<lambda>u. let m = avg_head 0 bpp m p u;
                  u = u + bpp;
                  (m, p, u) = avg_loop bpp (sub32 bpl bpp) m p u
              in (m, p + bpp))
     else if filter' = 4 then
       with_u (bpp \<noteq> 0 \<or> sub32 bpl bpp \<noteq> 0) u
         (\<lambda>u. let m = paeth_head 0 bpp m p u;
                  (m, p, u) = paeth_loop bpp (sub32 bpl bpp) m p u
              in (m, p + bpp))
     else Inr (m, p))"

text \<open>
  The \<open>do \<dots> while (--y != 0)\<close> loop, the same in the three kernels, over the row
  function \<open>row\<close>: read the filter byte, run the \<open>switch\<close>, set \<open>u = p - bpl\<close>.
  \<open>y\<close> counts the rounds that remain.  Addresses are natural numbers: \<open>p - bpl\<close> is the
  pointer of the code whenever \<open>bpl \<le> p\<close>, which holds after every row whose filter byte
  is below 5, since such a row moves \<open>p\<close> forward by \<open>bpl\<close>.
\<close>

fun kernel_rows ::
  "(nat \<Rightarrow> mem \<Rightarrow> nat \<Rightarrow> nat option \<Rightarrow> fault + (mem \<times> nat)) \<Rightarrow>
     nat \<Rightarrow> nat \<Rightarrow> mem \<Rightarrow> nat \<Rightarrow> nat option \<Rightarrow> fault + mem" where
  "kernel_rows row bpl 0 m p u = Inr m"
| "kernel_rows row bpl (Suc y) m p u =
    (case row (unat (m p)) m (p + 1) u of
       Inl e \<Rightarrow> Inl e
     | Inr (m, p) \<Rightarrow> kernel_rows row bpl y m p (Some (p - bpl)))"

text \<open>
  \<open>y = h\<close> and the test \<open>--y != 0\<close> after each round: \<open>h\<close> rounds, and \<open>2 ^ 32\<close> rounds
  for \<open>h = 0\<close>.
\<close>

definition rounds :: "nat \<Rightarrow> nat" where
  "rounds h = (if h = 0 then 2 ^ 32 else h)"

definition OptDePngFilterRef :: "mem \<Rightarrow> nat \<Rightarrow> nat \<Rightarrow> nat \<Rightarrow> nat \<Rightarrow> fault + mem" where
  "OptDePngFilterRef m p h bpp bpl =
     kernel_rows (ref_row bpp (dec32 bpl)) (dec32 bpl) (rounds h) m p None"

section \<open>The specialized kernel (part\_001, lines 186--254)\<close>

text \<open>
  \<open>OptDePngFilterOpt_T<bpp>\<close> has the text of the reference kernel with \<open>bpp\<close> a
  template parameter.
\<close>

definition opt_row ::
  "nat \<Rightarrow> nat \<Rightarrow> nat \<Rightarrow> mem \<Rightarrow> nat \<Rightarrow> nat option \<Rightarrow> fault + (mem \<times> nat)" where
  "opt_row bpp bpl filter' m p u =
    (if filter' = 0 then Inr (m, p + bpl)
     else if filter' = 1 then
       (let (m, p) = sub_loop bpp (sub32 bpl bpp) m p in Inr (m, p + bpp))
     else if filter' = 2 then
       with_u (bpl \<noteq> 0) u (\<lambda>u. let (m, p, u) = up_loop bpl m p u in (m, p))
     else if filter' = 3 then
       with_u (bpp \<noteq> 0 \<or> sub32 bpl bpp \<noteq> 0) u
         (\<lambda>u. let m = avg_head 0 bpp m p u;
                  u = u + bpp;
                  (m, p, u) = avg_loop bpp (sub32 bpl bpp) m p u
              in (m, p + bpp))
     else if filter' = 4 then
       with_u (bpp \<noteq> 0 \<or> sub32 bpl bpp \<noteq> 0) u
         (\<lambda>u. let m = paeth_head 0 bpp m p u;
                  (m, p, u) = paeth_loop bpp (sub32 bpl bpp) m p u
              in (m, p + bpp))
     else Inr (m, p))"

definition OptDePngFilterOpt_T :: "nat \<Rightarrow> mem \<Rightarrow> nat \<Rightarrow> nat \<Rightarrow> nat \<Rightarrow> fault + mem" where
  "OptDePngFilterOpt_T bpp m p h bpl =
     kernel_rows (opt_row bpp (dec32 bpl)) (dec32 bpl) (rounds h) m p None"

text \<open>The dispatch \<open>switch (bpp)\<close> has six cases and no \<open>default\<close>.\<close>

definition OptDePngFilterOpt :: "mem \<Rightarrow> nat \<Rightarrow> nat \<Rightarrow> nat \<Rightarrow> nat \<Rightarrow> fault + mem" where
  "OptDePngFilterOpt m p h bpp bpl =
    (if bpp = 1 then OptDePngFilterOpt_T 1 m p h bpl
     else if bpp = 2 then OptDePngFilterOpt_T 2 m p h bpl
     else if bpp = 3 then OptDePngFilterOpt_T 3 m p h bpl
     else if bpp = 4 then OptDePngFilterOpt_T 4 m p h bpl
     else if bpp = 6 then OptDePngFilterOpt_T 6 m p h bpl
     else if bpp = 8 then OptDePngFilterOpt_T 8 m p h bpl
     else Inr m)"


section \<open>128-bit registers and the SSE2 intrinsics\<close>

text \<open>
  An \<open>__m128i\<close> value is the list of its 16 bytes, byte 0 first (the byte that a store
  puts at the lowest address).  The 16-, 32- and 64-bit lanes of a register are the
  little-endian words of consecutive bytes.
\<close>

type_synonym m128i = "u8 list"
type_synonym u64 = "64 word"

definition le16 :: "u8 \<Rightarrow> u8 \<Rightarrow> u16" where
  "le16 b0 b1 = ucast b0 OR push_bit 8 (ucast b1)"

definition le32 :: "u8 \<Rightarrow> u8 \<Rightarrow> u8 \<Rightarrow> u8 \<Rightarrow> u32" where
  "le32 b0 b1 b2 b3 =
     ucast b0 OR push_bit 8 (ucast b1) OR push_bit 16 (ucast b2) OR push_bit 24 (ucast b3)"

definition le64 :: "u32 \<Rightarrow> u32 \<Rightarrow> u64" where
  "le64 w0 w1 = ucast w0 OR push_bit 32 (ucast w1)"

fun lanes16 :: "u8 list \<Rightarrow> u16 list" where
  "lanes16 (b0 # b1 # r) = le16 b0 b1 # lanes16 r"
| "lanes16 r = []"

fun bytes16 :: "u16 list \<Rightarrow> u8 list" where
  "bytes16 [] = []"
| "bytes16 (w # ws) = ucast w # ucast (drop_bit 8 w) # bytes16 ws"

fun lanes32 :: "u8 list \<Rightarrow> u32 list" where
  "lanes32 (b0 # b1 # b2 # b3 # r) = le32 b0 b1 b2 b3 # lanes32 r"
| "lanes32 r = []"

fun bytes32 :: "u32 list \<Rightarrow> u8 list" where
  "bytes32 [] = []"
| "bytes32 (w # ws) =
     ucast w # ucast (drop_bit 8 w) # ucast (drop_bit 16 w) # ucast (drop_bit 24 w) # bytes32 ws"

fun lanes64 :: "u8 list \<Rightarrow> u64 list" where
  "lanes64 (b0 # b1 # b2 # b3 # b4 # b5 # b6 # b7 # r) =
     le64 (le32 b0 b1 b2 b3) (le32 b4 b5 b6 b7) # lanes64 r"
| "lanes64 r = []"

fun bytes64 :: "u64 list \<Rightarrow> u8 list" where
  "bytes64 [] = []"
| "bytes64 (w # ws) =
     bytes32 [ucast w, ucast (drop_bit 32 w)] @ bytes64 ws"

text \<open>Constants and conversions.\<close>

definition mm_setzero_si128 :: m128i where
  "mm_setzero_si128 = replicate 16 0"

definition mm_set1_epi16 :: "u16 \<Rightarrow> m128i" where
  "mm_set1_epi16 x = bytes16 (replicate 8 x)"

definition mm_set1_epi32 :: "u32 \<Rightarrow> m128i" where
  "mm_set1_epi32 x = bytes32 (replicate 4 x)"

definition mm_setr_epi32 :: "u32 \<Rightarrow> u32 \<Rightarrow> u32 \<Rightarrow> u32 \<Rightarrow> m128i" where
  "mm_setr_epi32 e0 e1 e2 e3 = bytes32 [e0, e1, e2, e3]"

definition mm_cvtsi32_si128 :: "u32 \<Rightarrow> m128i" where
  "mm_cvtsi32_si128 x = bytes32 [x, 0, 0, 0]"

definition mm_cvtsi128_si32 :: "m128i \<Rightarrow> u32" where
  "mm_cvtsi128_si32 a = hd (lanes32 a)"

text \<open>
  Loads and stores.  The aligned and the unaligned forms move the same bytes; the
  kernel reaches an aligned address before it uses an aligned one.
\<close>

definition mm_loadu_si128 :: "mem \<Rightarrow> nat \<Rightarrow> m128i" where
  "mm_loadu_si128 m a =
     [m a, m (a + 1), m (a + 2), m (a + 3), m (a + 4), m (a + 5), m (a + 6), m (a + 7),
      m (a + 8), m (a + 9), m (a + 10), m (a + 11), m (a + 12), m (a + 13), m (a + 14),
      m (a + 15)]"

definition mm_load_si128 :: "mem \<Rightarrow> nat \<Rightarrow> m128i" where
  "mm_load_si128 m a = mm_loadu_si128 m a"

definition mm_loadl_epi64 :: "mem \<Rightarrow> nat \<Rightarrow> m128i" where
  "mm_loadl_epi64 m a =
     [m a, m (a + 1), m (a + 2), m (a + 3), m (a + 4), m (a + 5), m (a + 6), m (a + 7)]
     @ replicate 8 0"

definition mm_store_si128 :: "mem \<Rightarrow> nat \<Rightarrow> m128i \<Rightarrow> mem" where
  "mm_store_si128 m a r =
     m(a := r ! 0, a + 1 := r ! 1, a + 2 := r ! 2, a + 3 := r ! 3, a + 4 := r ! 4,
       a + 5 := r ! 5, a + 6 := r ! 6, a + 7 := r ! 7, a + 8 := r ! 8, a + 9 := r ! 9,
       a + 10 := r ! 10, a + 11 := r ! 11, a + 12 := r ! 12, a + 13 := r ! 13,
       a + 14 := r ! 14, a + 15 := r ! 15)"

definition mm_storel_epi64 :: "mem \<Rightarrow> nat \<Rightarrow> m128i \<Rightarrow> mem" where
  "mm_storel_epi64 m a r =
     m(a := r ! 0, a + 1 := r ! 1, a + 2 := r ! 2, a + 3 := r ! 3, a + 4 := r ! 4,
       a + 5 := r ! 5, a + 6 := r ! 6, a + 7 := r ! 7)"

text \<open>The scalar loads \<open>reinterpret_cast<uint16_t*>(p)[0]\<close> and \<open>reinterpret_cast<uint32_t*>(p)[0]\<close>.\<close>

definition load_u16 :: "mem \<Rightarrow> nat \<Rightarrow> u16" where
  "load_u16 m a = le16 (m a) (m (a + 1))"

definition load_u32 :: "mem \<Rightarrow> nat \<Rightarrow> u32" where
  "load_u32 m a = le32 (m a) (m (a + 1)) (m (a + 2)) (m (a + 3))"

text \<open>Byte-wise and lane-wise arithmetic.\<close>

definition mm_add_epi8 :: "m128i \<Rightarrow> m128i \<Rightarrow> m128i" where
  "mm_add_epi8 a b = map2 (+) a b"

definition mm_add_epi16 :: "m128i \<Rightarrow> m128i \<Rightarrow> m128i" where
  "mm_add_epi16 a b = bytes16 (map2 (+) (lanes16 a) (lanes16 b))"

definition mm_sub_epi16 :: "m128i \<Rightarrow> m128i \<Rightarrow> m128i" where
  "mm_sub_epi16 a b = bytes16 (map2 (-) (lanes16 a) (lanes16 b))"

definition mm_min_epi16 :: "m128i \<Rightarrow> m128i \<Rightarrow> m128i" where
  "mm_min_epi16 a b = bytes16 (map2 (\<lambda>x y. if x <s y then x else y) (lanes16 a) (lanes16 b))"

definition mm_max_epi16 :: "m128i \<Rightarrow> m128i \<Rightarrow> m128i" where
  "mm_max_epi16 a b = bytes16 (map2 (\<lambda>x y. if x <s y then y else x) (lanes16 a) (lanes16 b))"

definition mm_mulhi_epu16 :: "m128i \<Rightarrow> m128i \<Rightarrow> m128i" where
  "mm_mulhi_epu16 a b =
     bytes16 (map2 (\<lambda>x y. ucast (drop_bit 16 ((ucast x :: u32) * ucast y))) (lanes16 a) (lanes16 b))"

definition mm_mul_epu32 :: "m128i \<Rightarrow> m128i \<Rightarrow> m128i" where
  "mm_mul_epu32 a b =
     bytes64 [ucast (lanes32 a ! 0) * ucast (lanes32 b ! 0),
              ucast (lanes32 a ! 2) * ucast (lanes32 b ! 2)]"

definition mm_srai_epi16 :: "m128i \<Rightarrow> nat \<Rightarrow> m128i" where
  "mm_srai_epi16 a n = bytes16 (map (signed_drop_bit n) (lanes16 a))"

definition mm_srli_epi16 :: "m128i \<Rightarrow> nat \<Rightarrow> m128i" where
  "mm_srli_epi16 a n = bytes16 (map (drop_bit n) (lanes16 a))"

definition mm_slli_epi16 :: "m128i \<Rightarrow> nat \<Rightarrow> m128i" where
  "mm_slli_epi16 a n = bytes16 (map (push_bit n) (lanes16 a))"

definition mm_srli_epi32 :: "m128i \<Rightarrow> nat \<Rightarrow> m128i" where
  "mm_srli_epi32 a n = bytes32 (map (drop_bit n) (lanes32 a))"

definition mm_slli_epi64 :: "m128i \<Rightarrow> nat \<Rightarrow> m128i" where
  "mm_slli_epi64 a n = bytes64 (map (push_bit n) (lanes64 a))"

definition mm_srli_epi64 :: "m128i \<Rightarrow> nat \<Rightarrow> m128i" where
  "mm_srli_epi64 a n = bytes64 (map (drop_bit n) (lanes64 a))"

definition mm_and_si128 :: "m128i \<Rightarrow> m128i \<Rightarrow> m128i" where
  "mm_and_si128 a b = map2 (AND) a b"

definition mm_andnot_si128 :: "m128i \<Rightarrow> m128i \<Rightarrow> m128i" where
  "mm_andnot_si128 a b = map2 (\<lambda>x y. NOT x AND y) a b"

definition mm_or_si128 :: "m128i \<Rightarrow> m128i \<Rightarrow> m128i" where
  "mm_or_si128 a b = map2 (OR) a b"

text \<open>Whole-register byte shifts: \<open>slli\<close> moves bytes to higher positions.\<close>

definition mm_slli_si128 :: "m128i \<Rightarrow> nat \<Rightarrow> m128i" where
  "mm_slli_si128 a n = replicate (min n 16) 0 @ take (16 - n) a"

definition mm_srli_si128 :: "m128i \<Rightarrow> nat \<Rightarrow> m128i" where
  "mm_srli_si128 a n = drop n a @ replicate (min n 16) 0"

text \<open>Interleaving, packing with unsigned saturation, shuffles.\<close>

definition mm_unpacklo_epi8 :: "m128i \<Rightarrow> m128i \<Rightarrow> m128i" where
  "mm_unpacklo_epi8 a b = concat (map2 (\<lambda>x y. [x, y]) (take 8 a) (take 8 b))"

definition mm_unpackhi_epi8 :: "m128i \<Rightarrow> m128i \<Rightarrow> m128i" where
  "mm_unpackhi_epi8 a b = concat (map2 (\<lambda>x y. [x, y]) (drop 8 a) (drop 8 b))"

definition groups2 :: "u8 list \<Rightarrow> u8 list list" where
  "groups2 a = [take 2 a, take 2 (drop 2 a), take 2 (drop 4 a), take 2 (drop 6 a)]"

definition groups4 :: "u8 list \<Rightarrow> u8 list list" where
  "groups4 a = [take 4 a, take 4 (drop 4 a), take 4 (drop 8 a), take 4 (drop 12 a)]"

definition mm_unpackhi_epi16 :: "m128i \<Rightarrow> m128i \<Rightarrow> m128i" where
  "mm_unpackhi_epi16 a b = concat (map2 (@) (groups2 (drop 8 a)) (groups2 (drop 8 b)))"

definition mm_unpackhi_epi32 :: "m128i \<Rightarrow> m128i \<Rightarrow> m128i" where
  "mm_unpackhi_epi32 a b = concat (map2 (@) (drop 2 (groups4 a)) (drop 2 (groups4 b)))"

definition packus :: "u16 \<Rightarrow> u8" where
  "packus w = (if w <s 0 then 0 else if 255 <s w then 255 else ucast w)"

definition mm_packus_epi16 :: "m128i \<Rightarrow> m128i \<Rightarrow> m128i" where
  "mm_packus_epi16 a b = map packus (lanes16 a) @ map packus (lanes16 b)"

definition MM_SHUFFLE :: "nat \<Rightarrow> nat \<Rightarrow> nat \<Rightarrow> nat \<Rightarrow> nat" where
  "MM_SHUFFLE z y x w = z * 64 + y * 16 + x * 4 + w"

definition shuffle4 :: "'a list \<Rightarrow> nat \<Rightarrow> 'a list" where
  "shuffle4 g imm = [g ! (imm mod 4), g ! (imm div 4 mod 4), g ! (imm div 16 mod 4),
                     g ! (imm div 64 mod 4)]"

definition mm_shuffle_epi32 :: "m128i \<Rightarrow> nat \<Rightarrow> m128i" where
  "mm_shuffle_epi32 a imm = concat (shuffle4 (groups4 a) imm)"

definition mm_shufflelo_epi16 :: "m128i \<Rightarrow> nat \<Rightarrow> m128i" where
  "mm_shufflelo_epi16 a imm = concat (shuffle4 (groups2 (take 8 a)) imm) @ drop 8 a"

definition mm_shufflehi_epi16 :: "m128i \<Rightarrow> nat \<Rightarrow> m128i" where
  "mm_shufflehi_epi16 a imm = take 8 a @ concat (shuffle4 (groups2 (drop 8 a)) imm)"

text \<open>\<open>OptAlignDiff(p, 16)\<close>: the bytes up to the next 16-byte boundary.\<close>

definition OptAlignDiff :: "nat \<Rightarrow> nat \<Rightarrow> nat" where
  "OptAlignDiff p alignment = (alignment - p mod alignment) mod alignment"

text \<open>
  \<open>while (i >= n) { body; i -= n; }\<close>: every vector loop of the kernel has this
  form.  \<open>step\<close> is the loop body on the rest of the state.
\<close>

function simd_loop :: "nat \<Rightarrow> ('s \<Rightarrow> 's) \<Rightarrow> nat \<Rightarrow> 's \<Rightarrow> nat \<times> 's" where
  "simd_loop n step i s =
     (if 0 < n \<and> i \<ge> n then simd_loop n step (i - n) (step s) else (i, s))"
  by pat_completeness auto
termination
  by (relation "measure (\<lambda>(n, step, i, s). i)") auto

declare simd_loop.simps [simp del]

text \<open>
  The macros \<open>PNG_SSE_SLL_ADDB_1X\<close>, \<open>PNG_SSE_SLL_ADDB_2X\<close> and \<open>PNG_SSE_PAETH\<close>.  The
  temporaries \<open>T0\<close>, \<open>T1\<close> are written again before the kernel reads them, so only the
  \<open>P\<close> registers are returned.
\<close>

definition PNG_SSE_SLL_ADDB_1X :: "m128i \<Rightarrow> nat \<Rightarrow> m128i" where
  "PNG_SSE_SLL_ADDB_1X P0 Shift = (let T0 = mm_slli_si128 P0 Shift in mm_add_epi8 P0 T0)"

definition PNG_SSE_SLL_ADDB_2X :: "m128i \<Rightarrow> m128i \<Rightarrow> nat \<Rightarrow> m128i \<times> m128i" where
  "PNG_SSE_SLL_ADDB_2X P0 P1 Shift =
    (let T0 = mm_slli_si128 P0 Shift;
         T1 = mm_slli_si128 P1 Shift
     in (mm_add_epi8 P0 T0, mm_add_epi8 P1 T1))"

definition PNG_SSE_PAETH :: "m128i \<Rightarrow> m128i \<Rightarrow> m128i \<Rightarrow> m128i \<Rightarrow> m128i" where
  "PNG_SSE_PAETH rcp3 A B C =
    (let MinAB = mm_min_epi16 A B;
         MaxAB = mm_max_epi16 A B;
         DivAB = mm_mulhi_epu16 (mm_sub_epi16 MaxAB MinAB) rcp3;
         MinAB = mm_sub_epi16 MinAB C;
         MaxAB = mm_sub_epi16 MaxAB C;
         Dst = mm_add_epi16 C
                 (mm_andnot_si128 (mm_srai_epi16 (mm_add_epi16 DivAB MinAB) 15) MaxAB)
     in mm_add_epi16 Dst
          (mm_andnot_si128 (mm_srai_epi16 (mm_sub_epi16 DivAB MaxAB) 15) MinAB))"


section \<open>The SSE2 kernel (part\_001, lines 287--1358)\<close>

subsection \<open>Sub: loop bodies\<close>

text \<open>
  The state of the Sub loops is the store, \<open>p\<close> and the register \<open>p0\<close> that carries the
  last \<open>bpp\<close> reconstructed bytes into the next round.  The statements are in the order
  of the source.
\<close>

definition sse2_sub1_x64 :: "mem \<times> nat \<times> m128i \<Rightarrow> mem \<times> nat \<times> m128i" where
  "sse2_sub1_x64 = (\<lambda>(m, p, p0).
    let p0 = mm_add_epi8 p0 (mm_load_si128 m (p + 1));
        p1 = mm_load_si128 m (p + 17);
        p2 = mm_load_si128 m (p + 33);
        p3 = mm_load_si128 m (p + 49);
        (p0, p2) = PNG_SSE_SLL_ADDB_2X p0 p2 1;
        (p0, p2) = PNG_SSE_SLL_ADDB_2X p0 p2 2;
        (p0, p2) = PNG_SSE_SLL_ADDB_2X p0 p2 4;
        (p0, p2) = PNG_SSE_SLL_ADDB_2X p0 p2 8;
        m = mm_store_si128 m (p + 1) p0;
        p0 = mm_srli_si128 p0 15;
        t2 = mm_srli_si128 p2 15;
        p1 = mm_add_epi8 p1 p0;
        p3 = mm_add_epi8 p3 t2;
        (p1, p3) = PNG_SSE_SLL_ADDB_2X p1 p3 1;
        (p1, p3) = PNG_SSE_SLL_ADDB_2X p1 p3 2;
        (p1, p3) = PNG_SSE_SLL_ADDB_2X p1 p3 4;
        (p1, p3) = PNG_SSE_SLL_ADDB_2X p1 p3 8;
        m = mm_store_si128 m (p + 17) p1;
        p1 = mm_unpackhi_epi8 p1 p1;
        p1 = mm_unpackhi_epi16 p1 p1;
        p1 = mm_shuffle_epi32 p1 (MM_SHUFFLE 3 3 3 3);
        p2 = mm_add_epi8 p2 p1;
        p3 = mm_add_epi8 p3 p1;
        m = mm_store_si128 m (p + 33) p2;
        m = mm_store_si128 m (p + 49) p3;
        p0 = mm_srli_si128 p3 15
    in (m, p + 64, p0))"

definition sse2_sub1_x16 :: "mem \<times> nat \<times> m128i \<Rightarrow> mem \<times> nat \<times> m128i" where
  "sse2_sub1_x16 = (\<lambda>(m, p, p0).
    let p0 = mm_add_epi8 p0 (mm_load_si128 m (p + 1));
        p0 = PNG_SSE_SLL_ADDB_1X p0 1;
        p0 = PNG_SSE_SLL_ADDB_1X p0 2;
        p0 = PNG_SSE_SLL_ADDB_1X p0 4;
        p0 = PNG_SSE_SLL_ADDB_1X p0 8;
        m = mm_store_si128 m (p + 1) p0;
        p0 = mm_srli_si128 p0 15
    in (m, p + 16, p0))"

definition sse2_sub2_x64 :: "mem \<times> nat \<times> m128i \<Rightarrow> mem \<times> nat \<times> m128i" where
  "sse2_sub2_x64 = (\<lambda>(m, p, p0).
    let p0 = mm_add_epi8 p0 (mm_load_si128 m (p + 2));
        p1 = mm_load_si128 m (p + 18);
        p2 = mm_load_si128 m (p + 34);
        p3 = mm_load_si128 m (p + 50);
        (p0, p2) = PNG_SSE_SLL_ADDB_2X p0 p2 2;
        (p0, p2) = PNG_SSE_SLL_ADDB_2X p0 p2 4;
        (p0, p2) = PNG_SSE_SLL_ADDB_2X p0 p2 8;
        m = mm_store_si128 m (p + 2) p0;
        p0 = mm_srli_si128 p0 14;
        t2 = mm_srli_si128 p2 14;
        p1 = mm_add_epi8 p1 p0;
        p3 = mm_add_epi8 p3 t2;
        (p1, p3) = PNG_SSE_SLL_ADDB_2X p1 p3 2;
        (p1, p3) = PNG_SSE_SLL_ADDB_2X p1 p3 4;
        (p1, p3) = PNG_SSE_SLL_ADDB_2X p1 p3 8;
        m = mm_store_si128 m (p + 18) p1;
        p1 = mm_unpackhi_epi16 p1 p1;
        p1 = mm_shuffle_epi32 p1 (MM_SHUFFLE 3 3 3 3);
        p2 = mm_add_epi8 p2 p1;
        p3 = mm_add_epi8 p3 p1;
        m = mm_store_si128 m (p + 34) p2;
        m = mm_store_si128 m (p + 50) p3;
        p0 = mm_srli_si128 p3 14
    in (m, p + 64, p0))"

definition sse2_sub2_x16 :: "mem \<times> nat \<times> m128i \<Rightarrow> mem \<times> nat \<times> m128i" where
  "sse2_sub2_x16 = (\<lambda>(m, p, p0).
    let p0 = mm_add_epi8 p0 (mm_load_si128 m (p + 2));
        p0 = PNG_SSE_SLL_ADDB_1X p0 2;
        p0 = PNG_SSE_SLL_ADDB_1X p0 4;
        p0 = PNG_SSE_SLL_ADDB_1X p0 8;
        m = mm_store_si128 m (p + 2) p0;
        p0 = mm_srli_si128 p0 14
    in (m, p + 16, p0))"

definition sse2_sub3_x64 :: "mem \<times> nat \<times> m128i \<Rightarrow> mem \<times> nat \<times> m128i" where
  "sse2_sub3_x64 = (\<lambda>(m, p, p0).
    let ext3b = mm_set1_epi32 0x01000001;
        p0 = mm_add_epi8 p0 (mm_load_si128 m (p + 3));
        p1 = mm_load_si128 m (p + 19);
        p2 = mm_load_si128 m (p + 35);
        (p0, p2) = PNG_SSE_SLL_ADDB_2X p0 p2 3;
        (p0, p2) = PNG_SSE_SLL_ADDB_2X p0 p2 6;
        (p0, p2) = PNG_SSE_SLL_ADDB_2X p0 p2 12;
        p3 = mm_load_si128 m (p + 51);
        t0 = mm_srli_si128 p0 13;
        t2 = mm_srli_si128 p2 13;
        p1 = mm_add_epi8 p1 t0;
        p3 = mm_add_epi8 p3 t2;
        (p1, p3) = PNG_SSE_SLL_ADDB_2X p1 p3 3;
        (p1, p3) = PNG_SSE_SLL_ADDB_2X p1 p3 6;
        (p1, p3) = PNG_SSE_SLL_ADDB_2X p1 p3 12;
        m = mm_store_si128 m (p + 3) p0;
        p0 = mm_shuffle_epi32 p1 (MM_SHUFFLE 3 3 3 3);
        p0 = mm_srli_epi32 p0 8;
        p0 = mm_mul_epu32 p0 ext3b;
        p0 = mm_shufflelo_epi16 p0 (MM_SHUFFLE 0 2 1 0);
        p0 = mm_shufflehi_epi16 p0 (MM_SHUFFLE 1 0 2 1);
        m = mm_store_si128 m (p + 19) p1;
        p2 = mm_add_epi8 p2 p0;
        p0 = mm_shuffle_epi32 p0 (MM_SHUFFLE 1 3 2 1);
        m = mm_store_si128 m (p + 35) p2;
        p0 = mm_add_epi8 p0 p3;
        m = mm_store_si128 m (p + 51) p0;
        p0 = mm_srli_si128 p0 13
    in (m, p + 64, p0))"

definition sse2_sub3_x16 :: "mem \<times> nat \<times> m128i \<Rightarrow> mem \<times> nat \<times> m128i" where
  "sse2_sub3_x16 = (\<lambda>(m, p, p0).
    let p0 = mm_add_epi8 p0 (mm_load_si128 m (p + 3));
        p0 = PNG_SSE_SLL_ADDB_1X p0 3;
        p0 = PNG_SSE_SLL_ADDB_1X p0 6;
        p0 = PNG_SSE_SLL_ADDB_1X p0 12;
        m = mm_store_si128 m (p + 3) p0;
        p0 = mm_srli_si128 p0 13
    in (m, p + 16, p0))"

definition sse2_sub4_x64 :: "mem \<times> nat \<times> m128i \<Rightarrow> mem \<times> nat \<times> m128i" where
  "sse2_sub4_x64 = (\<lambda>(m, p, p0).
    let p0 = mm_add_epi8 p0 (mm_load_si128 m (p + 4));
        p1 = mm_load_si128 m (p + 20);
        p2 = mm_load_si128 m (p + 36);
        p3 = mm_load_si128 m (p + 52);
        (p0, p2) = PNG_SSE_SLL_ADDB_2X p0 p2 4;
        (p0, p2) = PNG_SSE_SLL_ADDB_2X p0 p2 8;
        m = mm_store_si128 m (p + 4) p0;
        p0 = mm_srli_si128 p0 12;
        t2 = mm_srli_si128 p2 12;
        p1 = mm_add_epi8 p1 p0;
        p3 = mm_add_epi8 p3 t2;
        (p1, p3) = PNG_SSE_SLL_ADDB_2X p1 p3 4;
        (p1, p3) = PNG_SSE_SLL_ADDB_2X p1 p3 8;
        p0 = mm_shuffle_epi32 p1 (MM_SHUFFLE 3 3 3 3);
        m = mm_store_si128 m (p + 20) p1;
        p2 = mm_add_epi8 p2 p0;
        p0 = mm_add_epi8 p0 p3;
        m = mm_store_si128 m (p + 36) p2;
        m = mm_store_si128 m (p + 52) p0;
        p0 = mm_srli_si128 p0 12
    in (m, p + 64, p0))"

definition sse2_sub4_x16 :: "mem \<times> nat \<times> m128i \<Rightarrow> mem \<times> nat \<times> m128i" where
  "sse2_sub4_x16 = (\<lambda>(m, p, p0).
    let p0 = mm_add_epi8 p0 (mm_load_si128 m (p + 4));
        p0 = PNG_SSE_SLL_ADDB_1X p0 4;
        p0 = PNG_SSE_SLL_ADDB_1X p0 8;
        m = mm_store_si128 m (p + 4) p0;
        p0 = mm_srli_si128 p0 12
    in (m, p + 16, p0))"

definition sse2_sub6_x64 :: "mem \<times> nat \<times> m128i \<Rightarrow> mem \<times> nat \<times> m128i" where
  "sse2_sub6_x64 = (\<lambda>(m, p, p0).
    let p0 = mm_add_epi8 p0 (mm_load_si128 m (p + 6));
        p1 = mm_load_si128 m (p + 22);
        p2 = mm_load_si128 m (p + 38);
        (p0, p2) = PNG_SSE_SLL_ADDB_2X p0 p2 6;
        (p0, p2) = PNG_SSE_SLL_ADDB_2X p0 p2 12;
        p3 = mm_load_si128 m (p + 54);
        m = mm_store_si128 m (p + 6) p0;
        p0 = mm_srli_si128 p0 10;
        t1 = mm_srli_si128 p2 10;
        p1 = mm_add_epi8 p1 p0;
        p3 = mm_add_epi8 p3 t1;
        (p1, p3) = PNG_SSE_SLL_ADDB_2X p1 p3 6;
        (p1, p3) = PNG_SSE_SLL_ADDB_2X p1 p3 12;
        p0 = mm_shuffle_epi32 p1 (MM_SHUFFLE 3 2 3 2);
        p0 = mm_shufflelo_epi16 p0 (MM_SHUFFLE 1 3 2 1);
        p0 = mm_shufflehi_epi16 p0 (MM_SHUFFLE 2 1 3 2);
        m = mm_store_si128 m (p + 22) p1;
        p2 = mm_add_epi8 p2 p0;
        p0 = mm_shuffle_epi32 p0 (MM_SHUFFLE 1 3 2 1);
        m = mm_store_si128 m (p + 38) p2;
        p0 = mm_add_epi8 p0 p3;
        m = mm_store_si128 m (p + 54) p0;
        p0 = mm_srli_si128 p0 10
    in (m, p + 64, p0))"

definition sse2_sub6_x16 :: "mem \<times> nat \<times> m128i \<Rightarrow> mem \<times> nat \<times> m128i" where
  "sse2_sub6_x16 = (\<lambda>(m, p, p0).
    let p0 = mm_add_epi8 p0 (mm_load_si128 m (p + 6));
        p0 = PNG_SSE_SLL_ADDB_1X p0 6;
        p0 = PNG_SSE_SLL_ADDB_1X p0 12;
        m = mm_store_si128 m (p + 6) p0;
        p0 = mm_srli_si128 p0 10
    in (m, p + 16, p0))"

definition sse2_sub8_x64 :: "mem \<times> nat \<times> m128i \<Rightarrow> mem \<times> nat \<times> m128i" where
  "sse2_sub8_x64 = (\<lambda>(m, p, p0).
    let p0 = mm_add_epi8 p0 (mm_load_si128 m (p + 8));
        p1 = mm_load_si128 m (p + 24);
        p2 = mm_load_si128 m (p + 40);
        p3 = mm_load_si128 m (p + 56);
        (p0, p2) = PNG_SSE_SLL_ADDB_2X p0 p2 8;
        m = mm_store_si128 m (p + 8) p0;
        p0 = mm_srli_si128 p0 8;
        t2 = mm_shuffle_epi32 p2 (MM_SHUFFLE 3 2 3 2);
        p1 = mm_add_epi8 p1 p0;
        (p1, p3) = PNG_SSE_SLL_ADDB_2X p1 p3 8;
        p0 = mm_shuffle_epi32 p1 (MM_SHUFFLE 3 2 3 2);
        p3 = mm_add_epi8 p3 t2;
        m = mm_store_si128 m (p + 24) p1;
        p2 = mm_add_epi8 p2 p0;
        p0 = mm_add_epi8 p0 p3;
        m = mm_store_si128 m (p + 40) p2;
        m = mm_store_si128 m (p + 56) p0;
        p0 = mm_srli_si128 p0 8
    in (m, p + 64, p0))"

definition sse2_sub8_x16 :: "mem \<times> nat \<times> m128i \<Rightarrow> mem \<times> nat \<times> m128i" where
  "sse2_sub8_x16 = (\<lambda>(m, p, p0).
    let p0 = mm_add_epi8 p0 (mm_load_si128 m (p + 8));
        p0 = PNG_SSE_SLL_ADDB_1X p0 8;
        m = mm_store_si128 m (p + 8) p0;
        p0 = mm_srli_si128 p0 8
    in (m, p + 16, p0))"

text \<open>For each \<open>bpp\<close>: the register \<open>p0\<close> before the first round and the two loops.\<close>

definition sse2_sub1 :: "nat \<Rightarrow> mem \<Rightarrow> nat \<Rightarrow> nat \<times> mem \<times> nat" where
  "sse2_sub1 i m p =
    (let p0 = mm_cvtsi32_si128 (ucast (m p));
         (i, m, p, p0) = simd_loop 64 sse2_sub1_x64 i (m, p, p0);
         (i, m, p, p0) = simd_loop 16 sse2_sub1_x16 i (m, p, p0)
     in (i, m, p))"

definition sse2_sub2 :: "nat \<Rightarrow> mem \<Rightarrow> nat \<Rightarrow> nat \<times> mem \<times> nat" where
  "sse2_sub2 i m p =
    (let p0 = mm_cvtsi32_si128 (ucast (load_u16 m p));
         (i, m, p, p0) = simd_loop 64 sse2_sub2_x64 i (m, p, p0);
         (i, m, p, p0) = simd_loop 16 sse2_sub2_x16 i (m, p, p0)
     in (i, m, p))"

definition sse2_sub3 :: "nat \<Rightarrow> mem \<Rightarrow> nat \<Rightarrow> nat \<times> mem \<times> nat" where
  "sse2_sub3 i m p =
    (let p0 = mm_cvtsi32_si128 (load_u32 m p AND 0x00FFFFFF);
         (i, m, p, p0) = simd_loop 64 sse2_sub3_x64 i (m, p, p0);
         (i, m, p, p0) = simd_loop 16 sse2_sub3_x16 i (m, p, p0)
     in (i, m, p))"

definition sse2_sub4 :: "nat \<Rightarrow> mem \<Rightarrow> nat \<Rightarrow> nat \<times> mem \<times> nat" where
  "sse2_sub4 i m p =
    (let p0 = mm_cvtsi32_si128 (load_u32 m p);
         (i, m, p, p0) = simd_loop 64 sse2_sub4_x64 i (m, p, p0);
         (i, m, p, p0) = simd_loop 16 sse2_sub4_x16 i (m, p, p0)
     in (i, m, p))"

definition sse2_sub6 :: "nat \<Rightarrow> mem \<Rightarrow> nat \<Rightarrow> nat \<times> mem \<times> nat" where
  "sse2_sub6 i m p =
    (let p0 = mm_loadl_epi64 m p;
         p0 = mm_slli_epi64 p0 16;
         p0 = mm_srli_epi64 p0 16;
         (i, m, p, p0) = simd_loop 64 sse2_sub6_x64 i (m, p, p0);
         (i, m, p, p0) = simd_loop 16 sse2_sub6_x16 i (m, p, p0)
     in (i, m, p))"

definition sse2_sub8 :: "nat \<Rightarrow> mem \<Rightarrow> nat \<Rightarrow> nat \<times> mem \<times> nat" where
  "sse2_sub8 i m p =
    (let p0 = mm_loadl_epi64 m p;
         (i, m, p, p0) = simd_loop 64 sse2_sub8_x64 i (m, p, p0);
         (i, m, p, p0) = simd_loop 16 sse2_sub8_x16 i (m, p, p0)
     in (i, m, p))"

text \<open>
  The Sub case of the \<open>switch\<close>.  The chain \<open>if (bpp == 1) \<dots> else if (bpp == 8)\<close> has
  no final \<open>else\<close>.
\<close>

definition sse2_sub :: "nat \<Rightarrow> nat \<Rightarrow> mem \<Rightarrow> nat \<Rightarrow> mem \<times> nat" where
  "sse2_sub bpp bpl m p =
    (let i = sub32 bpl bpp;
         (i, m, p) =
           (if i \<ge> 32 then
              let j = OptAlignDiff (p + bpp) 16;
                  i = i - j;
                  (m, p) = sub_loop bpp j m p
              in if bpp = 1 then sse2_sub1 i m p
                 else if bpp = 2 then sse2_sub2 i m p
                 else if bpp = 3 then sse2_sub3 i m p
                 else if bpp = 4 then sse2_sub4 i m p
                 else if bpp = 6 then sse2_sub6 i m p
                 else if bpp = 8 then sse2_sub8 i m p
                 else (i, m, p)
            else (i, m, p));
         (m, p) = sub_loop bpp i m p
     in (m, p + bpp))"


subsection \<open>Up\<close>

definition sse2_up_x64 :: "mem \<times> nat \<times> nat \<Rightarrow> mem \<times> nat \<times> nat" where
  "sse2_up_x64 = (\<lambda>(m, p, u).
    let u0 = mm_loadu_si128 m u;
        u1 = mm_loadu_si128 m (u + 16);
        p0 = mm_load_si128 m p;
        p1 = mm_load_si128 m (p + 16);
        u2 = mm_loadu_si128 m (u + 32);
        u3 = mm_loadu_si128 m (u + 48);
        p0 = mm_add_epi8 p0 u0;
        p1 = mm_add_epi8 p1 u1;
        p2 = mm_load_si128 m (p + 32);
        p3 = mm_load_si128 m (p + 48);
        p2 = mm_add_epi8 p2 u2;
        p3 = mm_add_epi8 p3 u3;
        m = mm_store_si128 m p p0;
        m = mm_store_si128 m (p + 16) p1;
        m = mm_store_si128 m (p + 32) p2;
        m = mm_store_si128 m (p + 48) p3
    in (m, p + 64, u + 64))"

definition sse2_up_x8 :: "mem \<times> nat \<times> nat \<Rightarrow> mem \<times> nat \<times> nat" where
  "sse2_up_x8 = (\<lambda>(m, p, u).
    let u0 = mm_loadl_epi64 m u;
        p0 = mm_loadl_epi64 m p;
        p0 = mm_add_epi8 p0 u0;
        m = mm_storel_epi64 m p p0
    in (m, p + 8, u + 8))"

definition sse2_up :: "nat \<Rightarrow> mem \<Rightarrow> nat \<Rightarrow> nat \<Rightarrow> mem \<times> nat" where
  "sse2_up bpl m p u =
    (let i = bpl;
         (i, m, p, u) =
           (if i \<ge> 24 then
              let j = OptAlignDiff p 16;
                  i = i - j;
                  (m, p, u) = up_loop j m p u;
                  (i, m, p, u) = simd_loop 64 sse2_up_x64 i (m, p, u)
              in simd_loop 8 sse2_up_x8 i (m, p, u)
            else (i, m, p, u));
         (m, p, u) = up_loop i m p u
     in (m, p))"

subsection \<open>Avg\<close>

text \<open>
  \<open>bpp = 1\<close>: eight bytes a round.  \<open>t0\<close> and \<open>t1\<close> are \<open>uint32_t\<close>; \<open>t0\<close> carries the last
  reconstructed byte.
\<close>

definition avg1_step :: "u32 \<Rightarrow> u32 \<Rightarrow> u32" where
  "avg1_step t0 t1 = drop_bit 1 (t0 + t1) AND 0xFF"

definition sse2_avg1_x8 :: "mem \<times> nat \<times> nat \<times> u32 \<Rightarrow> mem \<times> nat \<times> nat \<times> u32" where
  "sse2_avg1_x8 = (\<lambda>(m, p, u, t0).
    let zero = mm_setzero_si128;
        p0 = mm_loadl_epi64 m (p + 1);
        u0 = mm_loadl_epi64 m u;
        p0 = mm_unpacklo_epi8 p0 zero;
        u0 = mm_unpacklo_epi8 u0 zero;
        p0 = mm_slli_epi16 p0 1;
        p0 = mm_add_epi16 p0 u0;
        t1 = mm_cvtsi128_si32 p0;
        p0 = mm_srli_si128 p0 4;
        t0 = avg1_step t0 t1; t1 = drop_bit 16 t1;
        m = m(p + 1 := ucast t0);
        t0 = avg1_step t0 t1;
        t1 = mm_cvtsi128_si32 p0;
        p0 = mm_srli_si128 p0 4;
        m = m(p + 2 := ucast t0);
        t0 = avg1_step t0 t1; t1 = drop_bit 16 t1;
        m = m(p + 3 := ucast t0);
        t0 = avg1_step t0 t1;
        t1 = mm_cvtsi128_si32 p0;
        p0 = mm_srli_si128 p0 4;
        m = m(p + 4 := ucast t0);
        t0 = avg1_step t0 t1; t1 = drop_bit 16 t1;
        m = m(p + 5 := ucast t0);
        t0 = avg1_step t0 t1;
        t1 = mm_cvtsi128_si32 p0;
        m = m(p + 6 := ucast t0);
        t0 = avg1_step t0 t1; t1 = drop_bit 16 t1;
        m = m(p + 7 := ucast t0);
        t0 = avg1_step t0 t1;
        m = m(p + 8 := ucast t0)
    in (m, p + 8, u + 8, t0))"

definition sse2_avg4_x16 :: "mem \<times> nat \<times> nat \<times> m128i \<Rightarrow> mem \<times> nat \<times> nat \<times> m128i" where
  "sse2_avg4_x16 = (\<lambda>(m, p, u, t1).
    let zero = mm_setzero_si128;
        m00FF = mm_set1_epi16 0x00FF;
        m01FF = mm_set1_epi16 0x01FF;
        p0 = mm_load_si128 m (p + 4);
        u0 = mm_loadu_si128 m u;
        p1 = p0;
        p0 = mm_unpacklo_epi8 p0 zero;
        u1 = u0;
        p0 = mm_slli_epi16 p0 1;
        u0 = mm_unpacklo_epi8 u0 zero;
        p0 = mm_add_epi16 p0 t1;
        p1 = mm_unpackhi_epi8 p1 zero;
        p0 = mm_add_epi16 p0 u0;
        p0 = mm_and_si128 p0 m01FF;
        u1 = mm_unpackhi_epi8 u1 zero;
        t1 = mm_slli_si128 p0 8;
        p0 = mm_slli_epi16 p0 1;
        p1 = mm_slli_epi16 p1 1;
        p0 = mm_add_epi16 p0 t1;
        p0 = mm_srli_epi16 p0 2;
        p1 = mm_add_epi16 p1 u1;
        p0 = mm_and_si128 p0 m00FF;
        t1 = mm_srli_si128 p0 8;
        p1 = mm_add_epi16 p1 t1;
        p1 = mm_and_si128 p1 m01FF;
        t1 = mm_slli_si128 p1 8;
        p1 = mm_slli_epi16 p1 1;
        t1 = mm_add_epi16 t1 p1;
        t1 = mm_srli_epi16 t1 2;
        t1 = mm_and_si128 t1 m00FF;
        p0 = mm_packus_epi16 p0 t1;
        t1 = mm_srli_si128 t1 8;
        m = mm_store_si128 m (p + 4) p0
    in (m, p + 16, u + 16, t1))"

definition sse2_avg6_x16 :: "mem \<times> nat \<times> nat \<times> m128i \<Rightarrow> mem \<times> nat \<times> nat \<times> m128i" where
  "sse2_avg6_x16 = (\<lambda>(m, p, u, t1).
    let zero = mm_setzero_si128;
        u0 = mm_loadu_si128 m u;
        t1 = mm_unpacklo_epi8 t1 zero;
        p0 = mm_load_si128 m (p + 6);
        p1 = mm_srli_si128 p0 6;
        u1 = mm_srli_si128 u0 6;
        p2 = mm_srli_si128 p0 12;
        u2 = mm_srli_si128 u0 12;
        p0 = mm_unpacklo_epi8 p0 zero;
        u0 = mm_unpacklo_epi8 u0 zero;
        p1 = mm_unpacklo_epi8 p1 zero;
        u1 = mm_unpacklo_epi8 u1 zero;
        p2 = mm_unpacklo_epi8 p2 zero;
        u2 = mm_unpacklo_epi8 u2 zero;
        u0 = mm_add_epi16 u0 t1;
        u0 = mm_srli_epi16 u0 1;
        p0 = mm_add_epi8 p0 u0;
        u1 = mm_add_epi16 u1 p0;
        u1 = mm_srli_epi16 u1 1;
        p1 = mm_add_epi8 p1 u1;
        u2 = mm_add_epi16 u2 p1;
        u2 = mm_srli_epi16 u2 1;
        p2 = mm_add_epi8 p2 u2;
        p0 = mm_slli_si128 p0 4;
        p0 = mm_packus_epi16 p0 p1;
        p0 = mm_slli_si128 p0 2;
        p0 = mm_srli_si128 p0 4;
        p2 = mm_packus_epi16 p2 p2;
        p2 = mm_slli_si128 p2 12;
        p0 = mm_or_si128 p0 p2;
        m = mm_store_si128 m (p + 6) p0;
        t1 = mm_srli_si128 p0 10
    in (m, p + 16, u + 16, t1))"

definition sse2_avg8_x16 :: "mem \<times> nat \<times> nat \<times> m128i \<Rightarrow> mem \<times> nat \<times> nat \<times> m128i" where
  "sse2_avg8_x16 = (\<lambda>(m, p, u, t1).
    let zero = mm_setzero_si128;
        u0 = mm_loadu_si128 m u;
        p0 = mm_load_si128 m (p + 8);
        u1 = u0;
        p1 = p0;
        u0 = mm_unpacklo_epi8 u0 zero;
        p0 = mm_unpacklo_epi8 p0 zero;
        u0 = mm_add_epi16 u0 t1;
        p1 = mm_unpackhi_epi8 p1 zero;
        u0 = mm_srli_epi16 u0 1;
        u1 = mm_unpackhi_epi8 u1 zero;
        p0 = mm_add_epi8 p0 u0;
        u1 = mm_add_epi16 u1 p0;
        u1 = mm_srli_epi16 u1 1;
        p1 = mm_add_epi8 p1 u1;
        p0 = mm_packus_epi16 p0 p1;
        t1 = p1;
        m = mm_store_si128 m (p + 8) p0
    in (m, p + 16, u + 16, t1))"

definition sse2_avg1 :: "nat \<Rightarrow> mem \<Rightarrow> nat \<Rightarrow> nat \<Rightarrow> nat \<times> mem \<times> nat \<times> nat" where
  "sse2_avg1 i m p u =
    (let t0 = ucast (m p);
         (i, m, p, u, t0) = simd_loop 8 sse2_avg1_x8 i (m, p, u, t0)
     in (i, m, p, u))"

definition sse2_avg4 :: "nat \<Rightarrow> mem \<Rightarrow> nat \<Rightarrow> nat \<Rightarrow> nat \<times> mem \<times> nat \<times> nat" where
  "sse2_avg4 i m p u =
    (let t1 = mm_unpacklo_epi8 (mm_cvtsi32_si128 (load_u32 m p)) mm_setzero_si128;
         (i, m, p, u, t1) = simd_loop 16 sse2_avg4_x16 i (m, p, u, t1)
     in (i, m, p, u))"

definition sse2_avg6 :: "nat \<Rightarrow> mem \<Rightarrow> nat \<Rightarrow> nat \<Rightarrow> nat \<times> mem \<times> nat \<times> nat" where
  "sse2_avg6 i m p u =
    (let t1 = mm_loadl_epi64 m p;
         (i, m, p, u, t1) = simd_loop 16 sse2_avg6_x16 i (m, p, u, t1)
     in (i, m, p, u))"

definition sse2_avg8 :: "nat \<Rightarrow> mem \<Rightarrow> nat \<Rightarrow> nat \<Rightarrow> nat \<times> mem \<times> nat \<times> nat" where
  "sse2_avg8 i m p u =
    (let t1 = mm_unpacklo_epi8 (mm_loadl_epi64 m p) mm_setzero_si128;
         (i, m, p, u, t1) = simd_loop 16 sse2_avg8_x16 i (m, p, u, t1)
     in (i, m, p, u))"

text \<open>The Avg case.  There is no vector loop for \<open>bpp = 2\<close> and \<open>bpp = 3\<close>.\<close>

definition sse2_avg :: "nat \<Rightarrow> nat \<Rightarrow> mem \<Rightarrow> nat \<Rightarrow> nat \<Rightarrow> mem \<times> nat" where
  "sse2_avg bpp bpl m p u =
    (let m = avg_head 0 bpp m p u;
         i = sub32 bpl bpp;
         u = u + bpp;
         (i, m, p, u) =
           (if i \<ge> 32 then
              let j = OptAlignDiff (p + bpp) 16;
                  i = i - j;
                  (m, p, u) = avg_loop bpp j m p u
              in if bpp = 1 then sse2_avg1 i m p u
                 else if bpp = 4 then sse2_avg4 i m p u
                 else if bpp = 6 then sse2_avg6 i m p u
                 else if bpp = 8 then sse2_avg8 i m p u
                 else (i, m, p, u)
            else (i, m, p, u));
         (m, p, u) = avg_loop bpp i m p u
     in (m, p + bpp))"

subsection \<open>Paeth\<close>

text \<open>
  \<open>bpp = 1\<close>: the scalar loop \<open>for (i = 0; i < bpl; i++)\<close> with the rolling values \<open>pz\<close>
  and \<open>uz\<close>.  It runs from index \<open>i\<close> for \<open>n\<close> more rounds.
\<close>

fun sse2_paeth1_loop :: "nat \<Rightarrow> nat \<Rightarrow> mem \<Rightarrow> nat \<Rightarrow> nat \<Rightarrow> u32 \<Rightarrow> u32 \<Rightarrow> mem" where
  "sse2_paeth1_loop i 0 m p u pz uz = m"
| "sse2_paeth1_loop i (Suc n) m p u pz uz =
    (let u0 = ucast (m (u + i));
         pz = (ucast (m (p + i)) + PaethOpt pz u0 uz) AND 0xFF;
         m = m(p + i := ucast pz);
         uz = u0
     in sse2_paeth1_loop (i + 1) n m p u pz uz)"

text \<open>
  \<open>for (\<dots>; i != 0; i--, p++, u++) p[bpp] = Sum(p[bpp], PaethOpt(p[0], u[bpp], u[0]));\<close>
\<close>

fun paeth_opt_loop :: "nat \<Rightarrow> nat \<Rightarrow> mem \<Rightarrow> nat \<Rightarrow> nat \<Rightarrow> mem \<times> nat \<times> nat" where
  "paeth_opt_loop bpp 0 m p u = (m, p, u)"
| "paeth_opt_loop bpp (Suc i) m p u =
     paeth_opt_loop bpp i
       (m(p + bpp := Sum_u8 (ucast (m (p + bpp)))
                         (PaethOpt (ucast (m p)) (ucast (m (u + bpp))) (ucast (m u)))))
       (p + 1) (u + 1)"

definition rcp3 :: m128i where
  "rcp3 = mm_set1_epi16 (push_bit 7 0xAB)"

definition sse2_paeth3_x8 ::
  "mem \<times> nat \<times> nat \<times> m128i \<times> m128i \<Rightarrow> mem \<times> nat \<times> nat \<times> m128i \<times> m128i" where
  "sse2_paeth3_x8 = (\<lambda>(m, p, u, pz, uz).
    let zero = mm_setzero_si128;
        mask = mm_setr_epi32 0xFFFFFFFF 0x0000FFFF 0x00000000 0x00000000;
        u0 = mm_loadl_epi64 m (u + 3);
        p0 = mm_loadl_epi64 m (p + 3);
        u0 = mm_unpacklo_epi8 u0 zero;
        p0 = mm_unpacklo_epi8 p0 zero;
        u1 = mm_srli_si128 u0 6;
        uz = PNG_SSE_PAETH rcp3 pz u0 uz;
        uz = mm_and_si128 uz mask;
        p0 = mm_add_epi8 p0 uz;
        uz = PNG_SSE_PAETH rcp3 p0 u1 u0;
        uz = mm_and_si128 uz mask;
        uz = mm_slli_si128 uz 6;
        p0 = mm_add_epi8 p0 uz;
        p1 = mm_srli_si128 p0 6;
        u0 = mm_srli_si128 u1 6;
        u0 = PNG_SSE_PAETH rcp3 p1 u0 u1;
        u0 = mm_slli_si128 u0 12;
        p0 = mm_add_epi8 p0 u0;
        pz = mm_srli_si128 p0 10;
        uz = mm_srli_si128 u1 4;
        p0 = mm_packus_epi16 p0 p0;
        m = mm_storel_epi64 m (p + 3) p0
    in (m, p + 8, u + 8, pz, uz))"

definition sse2_paeth4_x16 ::
  "mem \<times> nat \<times> nat \<times> m128i \<times> m128i \<Rightarrow> mem \<times> nat \<times> nat \<times> m128i \<times> m128i" where
  "sse2_paeth4_x16 = (\<lambda>(m, p, u, pz, uz).
    let zero = mm_setzero_si128;
        mask = mm_setr_epi32 0xFFFFFFFF 0xFFFFFFFF 0 0;
        p0 = mm_load_si128 m (p + 4);
        u0 = mm_loadu_si128 m (u + 4);
        p1 = mm_unpackhi_epi8 p0 zero;
        p0 = mm_unpacklo_epi8 p0 zero;
        u1 = mm_unpackhi_epi8 u0 zero;
        u0 = mm_unpacklo_epi8 u0 zero;
        uz = PNG_SSE_PAETH rcp3 pz u0 uz;
        uz = mm_and_si128 uz mask;
        p0 = mm_add_epi8 p0 uz;
        uz = mm_shuffle_epi32 u0 (MM_SHUFFLE 1 0 3 2);
        u0 = PNG_SSE_PAETH rcp3 p0 uz u0;
        u0 = mm_slli_si128 u0 8;
        p0 = mm_add_epi8 p0 u0;
        pz = mm_srli_si128 p0 8;
        uz = PNG_SSE_PAETH rcp3 pz u1 uz;
        uz = mm_and_si128 uz mask;
        p1 = mm_add_epi8 p1 uz;
        uz = mm_shuffle_epi32 u1 (MM_SHUFFLE 1 0 3 2);
        u1 = PNG_SSE_PAETH rcp3 p1 uz u1;
        u1 = mm_slli_si128 u1 8;
        p1 = mm_add_epi8 p1 u1;
        pz = mm_srli_si128 p1 8;
        p0 = mm_packus_epi16 p0 p1;
        m = mm_store_si128 m (p + 4) p0
    in (m, p + 16, u + 16, pz, uz))"

definition sse2_paeth6_x16 ::
  "mem \<times> nat \<times> nat \<times> m128i \<times> m128i \<Rightarrow> mem \<times> nat \<times> nat \<times> m128i \<times> m128i" where
  "sse2_paeth6_x16 = (\<lambda>(m, p, u, pz, uz).
    let zero = mm_setzero_si128;
        p0 = mm_load_si128 m (p + 6);
        u0 = mm_loadu_si128 m (u + 6);
        p1 = mm_srli_si128 p0 6;
        p0 = mm_unpacklo_epi8 p0 zero;
        u1 = mm_srli_si128 u0 6;
        u0 = mm_unpacklo_epi8 u0 zero;
        uz = PNG_SSE_PAETH rcp3 pz u0 uz;
        p0 = mm_add_epi8 p0 uz;
        p2 = mm_srli_si128 p1 6;
        u2 = mm_srli_si128 u1 6;
        p1 = mm_unpacklo_epi8 p1 zero;
        u1 = mm_unpacklo_epi8 u1 zero;
        u0 = PNG_SSE_PAETH rcp3 p0 u1 u0;
        p1 = mm_add_epi8 p1 u0;
        p2 = mm_unpacklo_epi8 p2 zero;
        u2 = mm_unpacklo_epi8 u2 zero;
        u0 = PNG_SSE_PAETH rcp3 p1 u2 u1;
        p2 = mm_add_epi8 p2 u0;
        p0 = mm_slli_si128 p0 4;
        p0 = mm_packus_epi16 p0 p1;
        p0 = mm_slli_si128 p0 2;
        p0 = mm_srli_si128 p0 4;
        p2 = mm_shuffle_epi32 p2 (MM_SHUFFLE 1 0 1 0);
        u2 = mm_shuffle_epi32 u2 (MM_SHUFFLE 1 0 1 0);
        pz = mm_shuffle_epi32 (mm_unpackhi_epi32 p1 p2) (MM_SHUFFLE 3 3 1 0);
        uz = mm_shuffle_epi32 (mm_unpackhi_epi32 u1 u2) (MM_SHUFFLE 3 3 1 0);
        p2 = mm_packus_epi16 p2 p2;
        p2 = mm_slli_si128 p2 12;
        p0 = mm_or_si128 p0 p2;
        m = mm_store_si128 m (p + 6) p0
    in (m, p + 16, u + 16, pz, uz))"

definition sse2_paeth8_x16 ::
  "mem \<times> nat \<times> nat \<times> m128i \<times> m128i \<Rightarrow> mem \<times> nat \<times> nat \<times> m128i \<times> m128i" where
  "sse2_paeth8_x16 = (\<lambda>(m, p, u, pz, uz).
    let zero = mm_setzero_si128;
        p0 = mm_load_si128 m (p + 8);
        u0 = mm_loadu_si128 m (u + 8);
        p1 = mm_unpackhi_epi8 p0 zero;
        p0 = mm_unpacklo_epi8 p0 zero;
        u1 = mm_unpackhi_epi8 u0 zero;
        u0 = mm_unpacklo_epi8 u0 zero;
        uz = PNG_SSE_PAETH rcp3 pz u0 uz;
        p0 = mm_add_epi8 p0 uz;
        pz = PNG_SSE_PAETH rcp3 p0 u1 u0;
        pz = mm_add_epi8 pz p1;
        uz = u1;
        p0 = mm_packus_epi16 p0 pz;
        m = mm_store_si128 m (p + 8) p0
    in (m, p + 16, u + 16, pz, uz))"

definition sse2_paeth3 :: "nat \<Rightarrow> mem \<Rightarrow> nat \<Rightarrow> nat \<Rightarrow> nat \<times> mem \<times> nat \<times> nat" where
  "sse2_paeth3 i m p u =
    (let zero = mm_setzero_si128;
         pz = mm_unpacklo_epi8 (mm_cvtsi32_si128 (load_u32 m p AND 0x00FFFFFF)) zero;
         uz = mm_unpacklo_epi8 (mm_cvtsi32_si128 (load_u32 m u AND 0x00FFFFFF)) zero;
         (i, m, p, u, pz, uz) = simd_loop 8 sse2_paeth3_x8 i (m, p, u, pz, uz)
     in (i, m, p, u))"

definition sse2_paeth4 :: "nat \<Rightarrow> mem \<Rightarrow> nat \<Rightarrow> nat \<Rightarrow> nat \<times> mem \<times> nat \<times> nat" where
  "sse2_paeth4 i m p u =
    (let zero = mm_setzero_si128;
         pz = mm_unpacklo_epi8 (mm_cvtsi32_si128 (load_u32 m p)) zero;
         uz = mm_unpacklo_epi8 (mm_cvtsi32_si128 (load_u32 m u)) zero;
         (i, m, p, u, pz, uz) = simd_loop 16 sse2_paeth4_x16 i (m, p, u, pz, uz)
     in (i, m, p, u))"

definition sse2_paeth6 :: "nat \<Rightarrow> mem \<Rightarrow> nat \<Rightarrow> nat \<Rightarrow> nat \<times> mem \<times> nat \<times> nat" where
  "sse2_paeth6 i m p u =
    (let zero = mm_setzero_si128;
         pz = mm_unpacklo_epi8 (mm_loadl_epi64 m p) zero;
         uz = mm_unpacklo_epi8 (mm_loadl_epi64 m u) zero;
         (i, m, p, u, pz, uz) = simd_loop 16 sse2_paeth6_x16 i (m, p, u, pz, uz)
     in (i, m, p, u))"

definition sse2_paeth8 :: "nat \<Rightarrow> mem \<Rightarrow> nat \<Rightarrow> nat \<Rightarrow> nat \<times> mem \<times> nat \<times> nat" where
  "sse2_paeth8 i m p u =
    (let zero = mm_setzero_si128;
         pz = mm_unpacklo_epi8 (mm_loadl_epi64 m p) zero;
         uz = mm_unpacklo_epi8 (mm_loadl_epi64 m u) zero;
         (i, m, p, u, pz, uz) = simd_loop 16 sse2_paeth8_x16 i (m, p, u, pz, uz)
     in (i, m, p, u))"

text \<open>The Paeth case.  There is no vector loop for \<open>bpp = 2\<close>.\<close>

definition sse2_paeth :: "nat \<Rightarrow> nat \<Rightarrow> mem \<Rightarrow> nat \<Rightarrow> nat \<Rightarrow> mem \<times> nat" where
  "sse2_paeth bpp bpl m p u =
    (if bpp = 1 then
       (let m = sse2_paeth1_loop 0 bpl m p u 0 0 in (m, p + bpl))
     else
       let m = paeth_head 0 bpp m p u;
           i = sub32 bpl bpp;
           (i, m, p, u) =
             (if i \<ge> 32 then
                let j = OptAlignDiff (p + bpp) 16;
                    i = i - j;
                    (m, p, u) = paeth_opt_loop bpp j m p u
                in if bpp = 3 then sse2_paeth3 i m p u
                   else if bpp = 4 then sse2_paeth4 i m p u
                   else if bpp = 6 then sse2_paeth6 i m p u
                   else if bpp = 8 then sse2_paeth8 i m p u
                   else (i, m, p, u)
              else (i, m, p, u));
           (m, p, u) = paeth_opt_loop bpp i m p u
       in (m, p + bpp))"

subsection \<open>The kernel\<close>

definition sse2_row ::
  "nat \<Rightarrow> nat \<Rightarrow> nat \<Rightarrow> mem \<Rightarrow> nat \<Rightarrow> nat option \<Rightarrow> fault + (mem \<times> nat)" where
  "sse2_row bpp bpl filter' m p u =
    (if filter' = 0 then Inr (m, p + bpl)
     else if filter' = 1 then Inr (sse2_sub bpp bpl m p)
     else if filter' = 2 then with_u (bpl \<noteq> 0) u (\<lambda>u. sse2_up bpl m p u)
     else if filter' = 3 then
       with_u (bpp \<noteq> 0 \<or> sub32 bpl bpp \<noteq> 0) u (\<lambda>u. sse2_avg bpp bpl m p u)
     else if filter' = 4 then
       with_u (if bpp = 1 then bpl \<noteq> 0 else bpp \<noteq> 0 \<or> sub32 bpl bpp \<noteq> 0) u
         (\<lambda>u. sse2_paeth bpp bpl m p u)
     else Inr (m, p))"

definition OptDePngFilterSSE2_T :: "nat \<Rightarrow> mem \<Rightarrow> nat \<Rightarrow> nat \<Rightarrow> nat \<Rightarrow> fault + mem" where
  "OptDePngFilterSSE2_T bpp m p h bpl =
     kernel_rows (sse2_row bpp (dec32 bpl)) (dec32 bpl) (rounds h) m p None"

definition OptDePngFilterSSE2 :: "mem \<Rightarrow> nat \<Rightarrow> nat \<Rightarrow> nat \<Rightarrow> nat \<Rightarrow> fault + mem" where
  "OptDePngFilterSSE2 m p h bpp bpl =
    (if bpp = 1 then OptDePngFilterSSE2_T 1 m p h bpl
     else if bpp = 2 then OptDePngFilterSSE2_T 2 m p h bpl
     else if bpp = 3 then OptDePngFilterSSE2_T 3 m p h bpl
     else if bpp = 4 then OptDePngFilterSSE2_T 4 m p h bpl
     else if bpp = 6 then OptDePngFilterSSE2_T 6 m p h bpl
     else if bpp = 8 then OptDePngFilterSSE2_T 8 m p h bpl
     else Inr m)"


text \<open>
  For the proofs: the bytes that \<open>OptDePngRandomImage\<close> stores, in the order in which it
  stores them, as lists.  \<open>random_pixels_list\<close> follows \<open>random_pixels\<close> and
  \<open>random_rows_list\<close> follows \<open>random_rows\<close>, without the store.
\<close>

function random_pixels_list :: "nat \<Rightarrow> nat \<Rightarrow> nat \<Rightarrow> u8 list \<times> nat \<times> nat" where
  "random_pixels_list x rIndex0 rIndex1 =
    (let rCount = length OptDePngRandomData;
         b0 = OptDePngRandomData ! rIndex0;
         rIndex0 = OptDePngRandomWrap rIndex0 1 rCount;
         x = dec32 x
     in if x = 0 then ([b0], rIndex0, rIndex1)
        else
          let b1 = OptDePngRandomData ! rIndex1;
              rIndex1 = OptDePngRandomWrap rIndex1 2 rCount;
              x = dec32 x
          in if x = 0 then ([b0, b1], rIndex0, rIndex1)
             else let (bs, rIndex0, rIndex1) = random_pixels_list x rIndex0 rIndex1
                  in (b0 # b1 # bs, rIndex0, rIndex1))"
  by pat_completeness auto
termination
  by (relation "measure (\<lambda>(x, r0, r1). if x = 0 then 2 ^ 32 else x)")
     (auto simp: dec32_def split: if_splits)

declare random_pixels_list.simps [simp del]

function random_rows_list ::
  "nat \<Rightarrow> nat \<Rightarrow> nat \<Rightarrow> nat \<Rightarrow> nat \<Rightarrow> nat \<Rightarrow> nat \<Rightarrow> u8 list" where
  "random_rows_list filter' w h y f rIndex0 rIndex1 =
    (if y < h then
       let (b, f) = random_filter filter' y f;
           (bs, rIndex0, rIndex1) = random_pixels_list w rIndex0 rIndex1
       in (b # bs) @ random_rows_list filter' w h (y + 1) f rIndex0 rIndex1
     else [])"
  by pat_completeness auto
termination
  by (relation "measure (\<lambda>(filter', w, h, y, r). h - y)") auto

declare random_rows_list.simps [simp del]

text \<open>
  Reading the result of \<open>OptDePngRandomImage\<close>: byte \<open>k\<close> of the returned block, and its
  first \<open>n\<close> bytes.  \<open>None\<close> stands for the \<open>NULL\<close> result.
\<close>

definition image_byte :: "(nat \<times> mem) option \<Rightarrow> nat \<Rightarrow> u8 option" where
  "image_byte r k = (case r of None \<Rightarrow> None | Some (a, m) \<Rightarrow> Some (m (a + k)))"

definition image_buf :: "(nat \<times> mem) option \<Rightarrow> nat \<Rightarrow> u8 list option" where
  "image_buf r n = (case r of None \<Rightarrow> None | Some (a, m) \<Rightarrow> Some (buf m a n))"

text \<open>The rounds of the inner loop for a count \<open>x\<close>: \<open>--x\<close> wraps at zero.\<close>

definition pixel_rounds :: "nat \<Rightarrow> nat" where
  "pixel_rounds x = (if x = 0 then 2 ^ 32 else x)"

text \<open>
  The counter \<open>f\<close> before row \<open>y\<close> when the filter parameter \<open>filter'\<close> is 5 or more:
  it keeps the parameter up to row 1 and then runs through \<open>0, 1, 2, 3, 4\<close>.
\<close>

definition cycle_inv :: "nat \<Rightarrow> nat \<Rightarrow> nat \<Rightarrow> bool" where
  "cycle_inv filter' y c \<longleftrightarrow> (y \<le> 1 \<and> c = filter') \<or> (2 \<le> y \<and> c = (y - 2) mod 5)"

section \<open>Words as integers\<close>

lemma sint_i32: "small k \<Longrightarrow> sint (i32 k) = k"
  unfolding i32_def small_def
  by (simp add: sint_sbintrunc' signed_take_bit_int_eq_self)

lemma uint_i32: "0 \<le> k \<Longrightarrow> small k \<Longrightarrow> uint (i32 k) = k"
  unfolding i32_def small_def
  by (simp add: uint_word_of_int take_bit_int_eq_self)

lemma i32_add: "i32 a + i32 b = i32 (a + b)" by (simp add: i32_def)
lemma i32_diff: "i32 a - i32 b = i32 (a - b)" by (simp add: i32_def)
lemma i32_mult: "i32 a * i32 b = i32 (a * b)" by (simp add: i32_def)
lemma i32_neg: "- i32 a = i32 (- a)" by (simp add: i32_def)
lemma i32_num: "numeral n = i32 (numeral n)" by (simp add: i32_def)

lemma i32_sle: "small a \<Longrightarrow> small b \<Longrightarrow> i32 a \<le>s i32 b \<longleftrightarrow> a \<le> b"
  by (simp add: word_sle_eq sint_i32)
lemma i32_less: "0 \<le> a \<Longrightarrow> 0 \<le> b \<Longrightarrow> small a \<Longrightarrow> small b \<Longrightarrow> i32 a < i32 b \<longleftrightarrow> a < b"
  by (simp add: word_less_def uint_i32)

lemma sdb_i32: "small k \<Longrightarrow> signed_drop_bit n (i32 k) = i32 (k div 2 ^ n)"
proof -
  assume s: "small k"
  have "sint (signed_drop_bit n (i32 k)) = drop_bit n k"
    by (simp add: sint_signed_drop_bit_eq sint_i32 s)
  moreover have "small (k div 2 ^ n)"
  proof -
    have m: "(1::int) \<le> 2 ^ n" by simp
    show ?thesis
    proof (cases "0 \<le> k")
      case True
      then have "0 \<le> k div 2 ^ n" "k div 2 ^ n \<le> k"
        using m zdiv_mono2[of k 1 "2 ^ n"] by (simp_all add: pos_imp_zdiv_nonneg_iff)
      then show ?thesis using s unfolding small_def by linarith
    next
      case False
      then have "k div 1 \<le> k div 2 ^ n" "k div 2 ^ n \<le> 0"
        using m zdiv_mono2_neg[of k 1 "2 ^ n"] by (simp_all add: div_nonpos_pos_le0)
      then show ?thesis using s unfolding small_def by simp
    qed
  qed
  ultimately have "sint (signed_drop_bit n (i32 k)) = sint (i32 (k div 2 ^ n))"
    by (simp add: sint_i32 drop_bit_eq_div)
  then show ?thesis 
    by (rule signed_word_eqI)
qed


lemma c4_int: assumes "0 \<le> n" "n \<le> 255" shows "(n * 171) div 512 = (n::int) div 3"
proof -
  define q r where "q = n div 3" and "r = n mod 3"
  have n: "n = 3 * q + r" and r: "0 \<le> r" "r < 3" and q: "0 \<le> q" "q \<le> 85"
    using assms unfolding q_def r_def by simp_all
  have "n * 171 = q * 512 + (q + 171 * r)" by (simp add: n algebra_simps)
  moreover have "(q * 512 + (q + 171 * r)) div 512 = q + (q + 171 * r) div 512"
    by simp
  moreover have "(q + 171 * r) div 512 = 0"
    using r q by (simp add: div_pos_pos_trivial)
  ultimately show ?thesis by (simp add: q_def)
qed

section \<open>Division by three\<close>

text \<open>
  Claim C4.  For every \<open>x\<close> in \<open>[0, 255]\<close> the value \<open>UDiv3 x = (x * 0xAB) >> 9\<close> is the
  floor of \<open>x / 3\<close>.
\<close>

theorem UDiv3_correct: "n \<le> 255 \<Longrightarrow> UDiv3 (of_nat n) = of_nat (n div 3)"
proof -
  assume n: "n \<le> 255"
  have "UDiv3 (of_nat n) = UDiv3 (i32 (int n))" by (simp add: i32_def)
  also have "\<dots> = i32 ((int n * 171) div 2 ^ 9)"
    unfolding UDiv3_def using n by (simp add: i32_num i32_mult sdb_i32 small_def)
  also have "\<dots> = i32 (int n div 3)" using n by (simp add: c4_int)
  also have "\<dots> = of_nat (n div 3)" proof -
    have "int (n div 3) = int n div 3" by (simp add: zdiv_int)
    then show ?thesis unfolding i32_def by (metis of_int_of_nat_eq)
  qed
  finally show ?thesis .
qed

section \<open>The two Paeth predictors agree\<close>

lemma paeth_int_le:
  assumes "a \<le> b"
  shows "paeth_opt_int a b c = paeth_ref_int b a c"
proof -
  define q where "q = (b - a) div 3"
  have q: "3 * q \<le> b - a" "b - a < 3 * q + 3" unfolding q_def by presburger+
  have mm: "min a b = a" "max a b = b" using assms by simp_all
  show ?thesis unfolding paeth_opt_int_def paeth_ref_int_def mm q_def[symmetric]
    using q assms by (simp add: abs_if) 
qed

lemma paeth_int_ge:
  assumes "b \<le> a"
  shows "paeth_opt_int a b c = paeth_ref_int b a c"
proof -
  define q where "q = (a - b) div 3"
  have q: "3 * q \<le> a - b" "a - b < 3 * q + 3" unfolding q_def by presburger+
  have mm: "min a b = b" "max a b = a" using assms by simp_all
  show ?thesis unfolding paeth_opt_int_def paeth_ref_int_def mm q_def[symmetric]
    using q assms by (simp add: abs_if) 
qed

lemma paeth_int: "paeth_opt_int a b c = paeth_ref_int b a c"
  using paeth_int_le[of a b c] paeth_int_ge[of b a c] by linarith

lemma Abs_i32: "small k \<Longrightarrow> Abs (i32 k) = i32 \<bar>k\<bar>"
  unfolding Abs_def using i32_sle[of 0 k] by (simp add: small_def i32_def abs_if)

lemma Min_i32: "byte_val a \<Longrightarrow> byte_val b \<Longrightarrow> Min_u32 (i32 a) (i32 b) = i32 (min a b)"
  unfolding Min_u32_def byte_val_def by (simp add: i32_less small_def min_def)

lemma Max_i32: "byte_val a \<Longrightarrow> byte_val b \<Longrightarrow> Max_u32 (i32 a) (i32 b) = i32 (max a b)"
  unfolding Max_u32_def byte_val_def by (simp add: i32_less small_def max_def)

lemma UDiv3_i32: "byte_val k \<Longrightarrow> UDiv3 (i32 k) = i32 (k div 3)"
  unfolding UDiv3_def byte_val_def
  by (simp add: i32_num i32_mult sdb_i32 small_def c4_int)

lemma mask_i32: "small k \<Longrightarrow> x AND NOT (signed_drop_bit 31 (i32 k)) = (if k < 0 then 0 else x)"
proof -
  assume s: "small k"
  have "k div 2 ^ 31 = (if k < 0 then - 1 else 0)"
  proof (cases "k < 0")
    case True
    then have "(- k) div (- (2 ^ 31)) = - 1" using s unfolding small_def
      by (intro div_pos_neg_trivial) simp_all
    then show ?thesis using True by simp
  next
    case False
    then show ?thesis using s unfolding small_def by (simp add: div_pos_pos_trivial)
  qed
  then have "signed_drop_bit 31 (i32 k) = i32 (if k < 0 then - 1 else 0)"
    using sdb_i32[OF s, of 31] by simp
  then show ?thesis by (simp add: i32_def)
qed

lemma PaethRef_i32:
  assumes "byte_val a" "byte_val b" "byte_val c"
  shows "PaethRef (i32 b) (i32 a) (i32 c) = i32 (paeth_ref_int b a c)"
proof -
  have s: "small (b - c)" "small (a - c)" "small (b - c + (a - c))"
     "small \<bar>b - c\<bar>" "small \<bar>a - c\<bar>" "small \<bar>b - c + (a - c)\<bar>"
    using assms unfolding byte_val_def small_def by (simp_all add: abs_if)
  show ?thesis
    unfolding PaethRef_def paeth_ref_int_def Let_def
    by (simp only: i32_diff i32_add Abs_i32 i32_sle s if_distrib[of i32])
qed

lemma PaethOpt_i32:
  assumes "byte_val a" "byte_val b" "byte_val c"
  shows "PaethOpt (i32 a) (i32 b) (i32 c) = i32 (paeth_opt_int a b c)"
proof -
  define lo hi d where "lo = min a b" and "hi = max a b" and "d = (hi - lo) div 3"
  have b: "byte_val (hi - lo)" "byte_val lo" "byte_val hi"
    using assms unfolding byte_val_def lo_def hi_def by (simp_all add: min_def max_def)
  have d: "0 \<le> d" "d \<le> 85" using b unfolding d_def byte_val_def by simp_all
  have s: "small (d + (lo - c))" "small (d - (hi - c))"
    using b d assms unfolding byte_val_def small_def by simp_all
  have "PaethOpt (i32 a) (i32 b) (i32 c) =
      i32 c + (i32 (hi - c) AND NOT (signed_drop_bit 31 (i32 (d + (lo - c)))))
            + (i32 (lo - c) AND NOT (signed_drop_bit 31 (i32 (d - (hi - c)))))"
    unfolding PaethOpt_def Let_def
    by (simp only: Min_i32 Max_i32 assms i32_diff UDiv3_i32 b i32_add
          lo_def[symmetric] hi_def[symmetric] d_def[symmetric])
  also have "\<dots> = i32 (paeth_opt_int a b c)"
    unfolding paeth_opt_int_def lo_def[symmetric] hi_def[symmetric] d_def[symmetric]
    by (simp only: mask_i32 s, simp add: i32_add i32_diff, simp add: algebra_simps)
  finally show ?thesis .
qed

lemma byte_i32: "x \<le> 255 \<Longrightarrow> \<exists>k. byte_val k \<and> x = i32 k" for x :: u32
  by (rule exI[of _ "uint x"]) (simp add: byte_val_def i32_def word_le_def)

text \<open>
  Claim C2.  On every triple of byte values the branch-free predictor \<open>PaethOpt a b c\<close>
  returns what the reference predictor returns on the swapped arguments,
  \<open>PaethRef b a c\<close>.
\<close>

theorem PaethOpt_eq_PaethRef:
  fixes a b c :: u32
  assumes "a \<le> 255" "b \<le> 255" "c \<le> 255"
  shows "PaethOpt a b c = PaethRef b a c"
proof -
  obtain x where x: "byte_val x" "a = i32 x" using byte_i32[OF assms(1)] by auto
  obtain y where y: "byte_val y" "b = i32 y" using byte_i32[OF assms(2)] by auto
  obtain z where z: "byte_val z" "c = i32 z" using byte_i32[OF assms(3)] by auto
  from x y z show ?thesis by (simp add: PaethOpt_i32 PaethRef_i32 paeth_int)
qed

theorem UDiv3_correct_witness:
  "(200::nat) \<le> 255 \<and> UDiv3 (of_nat 200) = of_nat (200 div 3)"
  using UDiv3_correct [of 200] by simp

theorem PaethOpt_eq_PaethRef_witness:
  "(10::u32) \<le> 255 \<and> (200::u32) \<le> 255 \<and> (100::u32) \<le> 255
     \<and> PaethOpt 10 200 100 = PaethRef 200 10 100"
  using PaethOpt_eq_PaethRef [of 10 200 100] by simp

section \<open>Bytes and loops\<close>

lemma ucast_add_32_8: "ucast (x + y :: u32) = (ucast x + ucast y :: u8)"
  by (rule unsigned_word_eqI[where ?'a = int])
     (simp add: unsigned_ucast_eq uint_word_ariths take_bit_eq_mod mod_simps mod_mod_cancel)

lemma FF_mask: "(0xFF :: u32) = mask 8" by (simp add: mask_eq_exp_minus_1)

lemma ucast_and_FF: "ucast (x AND 0xFF :: u32) = (ucast x :: u8)"
  unfolding FF_mask
  by (auto intro!: bit_word_eqI simp: bit_simps)

lemma ucast_8_32_8: "ucast (ucast (a::u8) :: u32) = a"
  by (simp add: ucast_up_ucast_id is_up)

lemma Sum_u8_eq: "Sum_u8 (ucast a) x = a + ucast x"
  by (simp add: Sum_u8_def ucast_and_FF ucast_add_32_8 ucast_8_32_8)

lemma buf_1 [simp]: "buf m a (Suc 0) = [m a]"
  by (simp add: buf_def)

lemma buf_0 [simp]: "buf m a 0 = []"
  by (simp add: buf_def)

lemma buf_Suc: "buf m a (Suc n) = buf m a n @ [m (a + n)]"
  by (simp add: buf_def)

lemma buf_numeral [simp]: "buf m a (numeral k) = buf m a (pred_numeral k) @ [m (a + pred_numeral k)]"
  by (simp add: numeral_eq_Suc buf_Suc)

lemma kernel_rows_numeral [simp]:
  "kernel_rows row bpl (numeral k) m p u =
    (case row (unat (m p)) m (p + 1) u of
       Inl e \<Rightarrow> Inl e
     | Inr (m, p) \<Rightarrow> kernel_rows row bpl (pred_numeral k) m p (Some (p - bpl)))"
  by (simp add: numeral_eq_Suc)

lemma sub_loop_numeral [simp]:
  "sub_loop bpp (numeral k) m p =
     sub_loop bpp (pred_numeral k) (m(p + bpp := Sum_u8 (ucast (m (p + bpp))) (ucast (m p)))) (p + 1)"
  by (simp add: numeral_eq_Suc)

lemma avg_head_numeral [simp]:
  "avg_head i (numeral k) m p u =
     avg_head (i + 1) (pred_numeral k)
       (m(p + i := Sum_u8 (ucast (m (p + i))) (drop_bit 1 (ucast (m (u + i)))))) p u"
  by (simp add: numeral_eq_Suc)

lemma avg_loop_numeral [simp]:
  "avg_loop bpp (numeral k) m p u =
     avg_loop bpp (pred_numeral k)
       (m(p + bpp := Sum_u8 (ucast (m (p + bpp))) (Avg (ucast (m p)) (ucast (m u))))) (p + 1) (u + 1)"
  by (simp add: numeral_eq_Suc)

text \<open>
  Claim C5.  The reference kernel on the two rows \<open>[0, 10, 20, 30, 40]\<close> and
  \<open>[3, 2, 4, 6, 8]\<close> (\<open>bpp = 1\<close>, \<open>w = 4\<close>, \<open>h = 2\<close>), stored at any address \<open>a\<close> of any
  store, leaves row 0 as it is and reconstructs the pixel bytes of row 1 to
  \<open>[7, 17, 29, 42]\<close>: the average is the floor \<open>(a + b) >> 1\<close>.
\<close>

theorem Ref_avg_floor:
  "map_sum id (\<lambda>m'. buf m' a 10)
     (OptDePngFilterRef (store_list a [0, 10, 20, 30, 40, 3, 2, 4, 6, 8] m) a 2 1 5)
   = Inr [0, 10, 20, 30, 40, 3, 7, 17, 29, 42]"
  by (simp add: OptDePngFilterRef_def rounds_def dec32_def sub32_def ref_row_def with_u_def
      Avg_def Sum_u8_def store_list_def)

lemma kernel_rows_1 [simp]:
  "kernel_rows row bpl (Suc 0) m p u = map_sum id fst (row (unat (m p)) m (p + 1) u)"
  by (simp split: sum.splits)

section \<open>Rows without a filter\<close>

lemma kernel_rows_none:
  assumes row: "\<And>p u. row 0 m p u = Inr (m, p + bpl)"
    and z: "\<forall>y<n. m (p + y * (bpl + 1)) = 0"
  shows "kernel_rows row bpl n m p u = Inr m"
  using z
proof (induction n arbitrary: p u)
  case 0
  then show ?case by simp
next
  case (Suc n)
  have "m p = 0" using Suc.prems by force
  moreover have "\<forall>y<n. m (p + 1 + bpl + y * (bpl + 1)) = 0"
  proof (intro allI impI)
    fix y assume "y < n"
    then have "m (p + Suc y * (bpl + 1)) = 0" using Suc.prems by blast
    then show "m (p + 1 + bpl + y * (bpl + 1)) = 0" by (simp add: algebra_simps)
  qed
  ultimately show ?case using Suc.IH[of "p + 1 + bpl"] by (simp add: row)
qed

lemma dec32_pos: "0 < bpl \<Longrightarrow> dec32 bpl + 1 = bpl"
  by (simp add: dec32_def)

text \<open>
  Claim C6.  If the filter byte of every row is 0, each of the three kernels returns
  the store it was given: no byte of the buffer changes.
\<close>

theorem filter_none_unchanged:
  assumes "0 < h" "0 < bpl" "\<forall>y<h. m (p + y * bpl) = 0"
  shows "OptDePngFilterRef m p h bpp bpl = Inr m
       \<and> OptDePngFilterOpt m p h bpp bpl = Inr m
       \<and> OptDePngFilterSSE2 m p h bpp bpl = Inr m"
proof -
  have z: "\<forall>y<rounds h. m (p + y * (dec32 bpl + 1)) = 0"
    using assms dec32_pos[of bpl] by (simp add: rounds_def del: One_nat_def add_Suc_right mult_Suc_right)
  have "kernel_rows (ref_row bpp (dec32 bpl)) (dec32 bpl) (rounds h) m p None = Inr m"
    by (rule kernel_rows_none[OF _ z]) (simp add: ref_row_def)
  moreover have "\<And>b. kernel_rows (opt_row b (dec32 bpl)) (dec32 bpl) (rounds h) m p None = Inr m"
    by (rule kernel_rows_none[OF _ z]) (simp add: opt_row_def)
  moreover have "\<And>b. kernel_rows (sse2_row b (dec32 bpl)) (dec32 bpl) (rounds h) m p None = Inr m"
    by (rule kernel_rows_none[OF _ z]) (simp add: sse2_row_def)
  ultimately show ?thesis
    by (simp add: OptDePngFilterRef_def OptDePngFilterOpt_def OptDePngFilterOpt_T_def
        OptDePngFilterSSE2_def OptDePngFilterSSE2_T_def)
qed

theorem filter_none_unchanged_witness:
  "store_list 0 [0, 7, 9, 0, 200, 255] zero_mem 0 = 0
    \<and> store_list 0 [0, 7, 9, 0, 200, 255] zero_mem 3 = 0
    \<and> OptDePngFilterRef (store_list 0 [0, 7, 9, 0, 200, 255] zero_mem) 0 2 2 3
          = Inr (store_list 0 [0, 7, 9, 0, 200, 255] zero_mem)
    \<and> OptDePngFilterOpt (store_list 0 [0, 7, 9, 0, 200, 255] zero_mem) 0 2 2 3
          = Inr (store_list 0 [0, 7, 9, 0, 200, 255] zero_mem)
    \<and> OptDePngFilterSSE2 (store_list 0 [0, 7, 9, 0, 200, 255] zero_mem) 0 2 2 3
          = Inr (store_list 0 [0, 7, 9, 0, 200, 255] zero_mem)"
proof -
  have h: "\<forall>y<2. store_list 0 [0, 7, 9, 0, 200, 255] zero_mem (0 + y * 3) = 0"
    by (auto simp: store_list_def less_2_cases_iff)
  show ?thesis
    using filter_none_unchanged [of 2 3 "store_list 0 [0, 7, 9, 0, 200, 255] zero_mem" 0 2, OF _ _ h]
    by (simp add: store_list_def)
qed

section \<open>Dispatch on bpp\<close>

text \<open>
  Claim C10.  For \<open>bpp\<close> outside \<open>{1, 2, 3, 4, 6, 8}\<close> the dispatch of
  \<open>OptDePngFilterOpt\<close> and of \<open>OptDePngFilterSSE2\<close> runs no kernel: the store is returned
  unchanged.
\<close>

theorem dispatch_no_default:
  assumes "bpp \<notin> {1, 2, 3, 4, 6, 8}"
  shows "OptDePngFilterOpt m p h bpp bpl = Inr m \<and> OptDePngFilterSSE2 m p h bpp bpl = Inr m"
  using assms by (simp add: OptDePngFilterOpt_def OptDePngFilterSSE2_def)

theorem dispatch_no_default_witness:
  "(5::nat) \<notin> {1, 2, 3, 4, 6, 8}
   \<and> OptDePngFilterOpt (store_list 0 [1, 2, 3, 4, 5, 6] zero_mem) 0 1 5 6
        = Inr (store_list 0 [1, 2, 3, 4, 5, 6] zero_mem)
   \<and> OptDePngFilterSSE2 (store_list 0 [1, 2, 3, 4, 5, 6] zero_mem) 0 1 5 6
        = Inr (store_list 0 [1, 2, 3, 4, 5, 6] zero_mem)"
  using dispatch_no_default [of 5 "store_list 0 [1, 2, 3, 4, 5, 6] zero_mem" 0 1 6] by simp

section \<open>The first row\<close>

lemma kernel_rows_first_fault:
  assumes "0 < n" "row (unat (m p)) m (p + 1) None = Inl e"
  shows "kernel_rows row bpl n m p None = Inl e"
  using assms by (cases n) simp_all

text \<open>
  Claim C3 says that the kernels treat row 0 with filter Up, Avg or Paeth as if a
  previous row of zero bytes were there.  They do not: \<open>u\<close> is \<open>NULL\<close> in row 0 and these
  filters read through it.  On the one-row buffer \<open>[2, 5]\<close> (filter Up, \<open>bpp = 1\<close>) an
  implicit zero row would leave the pixel byte 5; each kernel stops with the fault.
\<close>

theorem first_row_counterexample:
  "OptDePngFilterRef (store_list 0 [2, 5] zero_mem) 0 1 1 2 = Inl NullDeref
   \<and> OptDePngFilterOpt (store_list 0 [2, 5] zero_mem) 0 1 1 2 = Inl NullDeref
   \<and> OptDePngFilterSSE2 (store_list 0 [2, 5] zero_mem) 0 1 1 2 = Inl NullDeref"
  by (simp add: OptDePngFilterRef_def OptDePngFilterOpt_def OptDePngFilterOpt_T_def
      OptDePngFilterSSE2_def OptDePngFilterSSE2_T_def rounds_def dec32_def
      ref_row_def opt_row_def sse2_row_def with_u_def store_list_def)

text \<open>
  Claim C3, amended.  For a buffer with \<open>h \<ge> 1\<close>, \<open>bpp\<close> in \<open>{1, 2, 3, 4, 6, 8}\<close>,
  \<open>bpl = w * bpp + 1\<close> and \<open>w \<ge> 1\<close> whose row 0 carries filter Up, Avg or Paeth, each of
  the three kernels reads through the \<open>NULL\<close> cursor in row 0 and stops there: there
  is no implicit zero row.
\<close>

theorem first_row_null_cursor:
  assumes "1 \<le> h" "bpp \<in> {1, 2, 3, 4, 6, 8}" "1 \<le> w" "bpl = w * bpp + 1"
    and "m p \<in> {2, 3, 4}"
  shows "OptDePngFilterRef m p h bpp bpl = Inl NullDeref
       \<and> OptDePngFilterOpt m p h bpp bpl = Inl NullDeref
       \<and> OptDePngFilterSSE2 m p h bpp bpl = Inl NullDeref"
proof -
  have f: "unat (m p) = 2 \<or> unat (m p) = 3 \<or> unat (m p) = 4"
    using assms(5) by auto
  have b: "bpp \<noteq> 0" "dec32 bpl \<noteq> 0" "0 < rounds h"
    using assms by (auto simp: dec32_def rounds_def)
  have "ref_row bpp (dec32 bpl) (unat (m p)) m (p + 1) None = Inl NullDeref"
    using f b by (auto simp: ref_row_def with_u_def)
  then have r: "OptDePngFilterRef m p h bpp bpl = Inl NullDeref"
    unfolding OptDePngFilterRef_def using b(3) by (rule kernel_rows_first_fault[rotated])
  have "opt_row bpp (dec32 bpl) (unat (m p)) m (p + 1) None = Inl NullDeref"
    using f b by (auto simp: opt_row_def with_u_def)
  then have "OptDePngFilterOpt_T bpp m p h bpl = Inl NullDeref"
    unfolding OptDePngFilterOpt_T_def using b(3) by (rule kernel_rows_first_fault[rotated])
  then have o: "OptDePngFilterOpt m p h bpp bpl = Inl NullDeref"
    using assms(2) by (auto simp: OptDePngFilterOpt_def)
  have "sse2_row bpp (dec32 bpl) (unat (m p)) m (p + 1) None = Inl NullDeref"
    using f b by (auto simp: sse2_row_def with_u_def)
  then have "OptDePngFilterSSE2_T bpp m p h bpl = Inl NullDeref"
    unfolding OptDePngFilterSSE2_T_def using b(3) by (rule kernel_rows_first_fault[rotated])
  then have s: "OptDePngFilterSSE2 m p h bpp bpl = Inl NullDeref"
    using assms(2) by (auto simp: OptDePngFilterSSE2_def)
  from r o s show ?thesis by simp
qed

theorem first_row_null_cursor_witness:
  "(1::nat) \<le> 1 \<and> (1::nat) \<in> {1, 2, 3, 4, 6, 8} \<and> (1::nat) \<le> 1 \<and> (2::nat) = 1 * 1 + 1
   \<and> store_list 0 [3, 5] zero_mem 0 \<in> {2, 3, 4}
   \<and> OptDePngFilterRef (store_list 0 [3, 5] zero_mem) 0 1 1 2 = Inl NullDeref
   \<and> OptDePngFilterOpt (store_list 0 [3, 5] zero_mem) 0 1 1 2 = Inl NullDeref
   \<and> OptDePngFilterSSE2 (store_list 0 [3, 5] zero_mem) 0 1 1 2 = Inl NullDeref"
proof -
  have h: "store_list 0 [3, 5] zero_mem 0 \<in> {2, 3, 4}"
    by (simp add: store_list_def)
  show ?thesis
    using first_row_null_cursor [of 1 1 1 2 "store_list 0 [3, 5] zero_mem" 0, OF _ _ _ _ h] h
    by simp
qed

section \<open>The comparison reports an invalid filter byte\<close>

lemma compare_pixels_Some:
  "compare_pixels m pA pB bpp x = Some (a, b) \<Longrightarrow> a = pA + x * bpp \<and> b = pB + x * bpp"
proof (induction x arbitrary: pA pB)
  case 0
  then show ?case by simp
next
  case (Suc x)
  then have "compare_pixels m (pA + bpp) (pB + bpp) bpp x = Some (a, b)"
    by (simp split: if_splits)
  from Suc.IH[OF this] show ?case by (simp add: algebra_simps)
qed

lemma compare_rows_invalid:
  assumes "y0 < n" "kPngFilterCount \<le> unat (m (pA + y0 * (w * bpp + 1)))"
  shows "\<not> compare_rows m pA pB w bpp n"
  using assms
proof (induction n arbitrary: pA pB y0)
  case 0
  then show ?case by simp
next
  case (Suc n)
  show ?case
  proof (cases y0)
    case 0
    then show ?thesis using Suc.prems by (simp add: Let_def)
  next
    case (Suc y1)
    have "\<not> compare_rows m (pA + 1 + w * bpp) pB' w bpp n" for pB'
      using Suc.IH[of y1 "pA + 1 + w * bpp" pB'] Suc.prems \<open>y0 = Suc y1\<close>
      by (simp add: algebra_simps)
    then show ?thesis
      by (auto simp: Let_def split: option.splits dest!: compare_pixels_Some)
  qed
qed

text \<open>
  Claim C7.  For two identical buffers of consistent dimensions
  (\<open>bpl = w * bpp + 1\<close>) in which the filter byte of some row is 5 or more,
  \<open>OptDePngCompare\<close> returns \<open>false\<close>.
\<close>

theorem compare_invalid_filter:
  assumes "bpl = w * bpp + 1"
    and "\<forall>k < h * bpl. m (pA + k) = m (pB + k)"
    and "y0 < h" "5 \<le> unat (m (pA + y0 * bpl))"
  shows "\<not> OptDePngCompare m pA pB w h bpp bpl"
  using compare_rows_invalid[of y0 h m pA w bpp pB] assms
  by (simp add: OptDePngCompare_def kPngFilterCount_def)

theorem compare_invalid_filter_witness:
  "(5::nat) = 2 * 2 + 1 \<and> (1::nat) < 2
   \<and> 5 \<le> unat (store_list 0 [0, 1, 2, 3, 4, 7, 5, 6, 7, 8] zero_mem (0 + 1 * 5))
   \<and> \<not> OptDePngCompare (store_list 0 [0, 1, 2, 3, 4, 7, 5, 6, 7, 8] zero_mem) 0 0 2 2 2 5"
  using compare_invalid_filter
    [of 5 2 2 2 "store_list 0 [0, 1, 2, 3, 4, 7, 5, 6, 7, 8] zero_mem" 0 0 1]
  by (simp add: store_list_def)

section \<open>The generated image\<close>

lemma store_list_single: "m(p := b) = store_list p [b] m"
  by (auto simp: store_list_def fun_eq_iff)

lemma store_list_append:
  "store_list (a + length xs) ys (store_list a xs m) = store_list a (xs @ ys) m"
  by (auto simp: store_list_def fun_eq_iff nth_append)

lemma store_list_Cons:
  "store_list (Suc a) ys (m(a := b)) = store_list a (b # ys) m"
  using store_list_append[of a "[b]" ys m] by (simp add: store_list_single)

lemma store_list_Cons2:
  "store_list (Suc (Suc a)) ys (m(a := b, Suc a := c)) = store_list a (b # c # ys) m"
  by (simp add: store_list_Cons)

lemma store_list_Nil [simp]: "store_list a [] m = m"
  by (auto simp: store_list_def fun_eq_iff)

lemma store_list_two: "m(p := a, Suc p := b) = store_list p [a, b] m"
  using store_list_Cons2[of p "[]" m a b] by simp

lemma store_list_nth: "k < length xs \<Longrightarrow> store_list a xs m (a + k) = xs ! k"
  by (simp add: store_list_def)

lemma buf_store_list: "n \<le> length xs \<Longrightarrow> buf (store_list a xs m) a n = take n xs"
  by (auto simp: buf_def store_list_def list_eq_iff_nth_eq)

lemma random_pixels_eq:
  "random_pixels x m p r0 r1 =
    (case random_pixels_list x r0 r1 of
       (bs, r0', r1') \<Rightarrow> (store_list p bs m, p + length bs, r0', r1'))"
proof (induction x r0 r1 arbitrary: m p rule: random_pixels_list.induct)
  case (1 x r0 r1)
  let ?n = "length OptDePngRandomData"
  let ?r0 = "OptDePngRandomWrap r0 1 ?n" and ?r1 = "OptDePngRandomWrap r1 2 ?n"
  show ?case
  proof (cases "dec32 x = 0")
    case True
    then show ?thesis
      by (subst random_pixels.simps, subst random_pixels_list.simps)
         (simp add: Let_def store_list_single)
  next
    case False
    note x1 = this
    show ?thesis
    proof (cases "dec32 (dec32 x) = 0")
      case True
      then show ?thesis using x1
        by (subst random_pixels.simps, subst random_pixels_list.simps)
           (simp add: Let_def store_list_two)
    next
      case False
      have IH: "random_pixels (dec32 (dec32 x)) m' p' ?r0 ?r1 =
         (case random_pixels_list (dec32 (dec32 x)) ?r0 ?r1 of
            (bs, r0'', r1'') \<Rightarrow> (store_list p' bs m', p' + length bs, r0'', r1''))" for m' p'
        using 1[OF refl refl refl refl _ refl refl refl, of m' p'] x1 False
        by simp
      show ?thesis
        using x1 False
          IH[of "m(p := OptDePngRandomData ! r0, Suc p := OptDePngRandomData ! r1)" "Suc (Suc p)"]
        by (subst random_pixels.simps, subst random_pixels_list.simps)
           (auto simp add: Let_def store_list_Cons2 split: prod.splits)
    qed
  qed
qed

lemma random_rows_eq:
  "random_rows f w h y m p c r0 r1 = store_list p (random_rows_list f w h y c r0 r1) m"
proof (induction f w h y c r0 r1 arbitrary: m p rule: random_rows_list.induct)
  case (1 f w h y c r0 r1)
  show ?case
  proof (cases "y < h")
    case False
    then show ?thesis
      by (subst random_rows.simps, subst random_rows_list.simps) simp
  next
    case True
    obtain b c' where rf: "random_filter f y c = (b, c')" by (cases "random_filter f y c")
    obtain bs r0' r1' where rp: "random_pixels_list w r0 r1 = (bs, r0', r1')"
      by (cases "random_pixels_list w r0 r1") auto
    have IH: "random_rows f w h (Suc y) m' p' c' r0' r1'
          = store_list p' (random_rows_list f w h (Suc y) c' r0' r1') m'" for m' p'
      using 1[OF True rf[symmetric] refl rp[symmetric] refl] by simp
    have "random_rows f w h y m p c r0 r1 =
        store_list (p + length (b # bs)) (random_rows_list f w h (y + 1) c' r0' r1')
          (store_list p (b # bs) m)"
      using True
      by (subst random_rows.simps) (simp add: rf rp random_pixels_eq IH store_list_Cons)
    also have "\<dots> = store_list p ((b # bs) @ random_rows_list f w h (y + 1) c' r0' r1') m"
      by (rule store_list_append)
    also have "\<dots> = store_list p (random_rows_list f w h y c r0 r1) m"
      using True by (subst (2) random_rows_list.simps) (simp add: rf rp)
    finally show ?thesis .
  qed
qed


lemma random_pixels_list_length:
  "length (fst (random_pixels_list x r0 r1)) = pixel_rounds x"
proof (induction x r0 r1 rule: random_pixels_list.induct)
  case (1 x r0 r1)
  let ?n = "length OptDePngRandomData"
  let ?r0 = "OptDePngRandomWrap r0 1 ?n" and ?r1 = "OptDePngRandomWrap r1 2 ?n"
  show ?case
  proof (cases "dec32 x = 0 \<or> dec32 (dec32 x) = 0")
    case True
    then show ?thesis
      by (subst random_pixels_list.simps)
         (auto simp: Let_def dec32_def pixel_rounds_def split: if_splits)
  next
    case False
    then have "length (fst (random_pixels_list (dec32 (dec32 x)) ?r0 ?r1))
        = pixel_rounds (dec32 (dec32 x))"
      using 1[OF refl refl refl refl _ refl refl refl] by simp
    then show ?thesis using False
      by (subst random_pixels_list.simps)
         (auto simp: Let_def dec32_def pixel_rounds_def split: if_splits prod.splits)
  qed
qed

lemma random_rows_list_length:
  "length (random_rows_list f w h y c r0 r1) = (h - y) * (pixel_rounds w + 1)"
proof (induction f w h y c r0 r1 rule: random_rows_list.induct)
  case (1 f w h y c r0 r1)
  show ?case
  proof (cases "y < h")
    case False
    then show ?thesis by (subst random_rows_list.simps) simp
  next
    case True
    obtain b c' where rf: "random_filter f y c = (b, c')" by (cases "random_filter f y c")
    obtain bs r0' r1' where rp: "random_pixels_list w r0 r1 = (bs, r0', r1')"
      by (cases "random_pixels_list w r0 r1") auto
    have l: "length bs = pixel_rounds w"
      using random_pixels_list_length[of w r0 r1] rp by simp
    have "length (random_rows_list f w h (Suc y) c' r0' r1') = (h - Suc y) * (pixel_rounds w + 1)"
      using 1[OF True rf[symmetric] refl rp[symmetric] refl] by simp
    moreover have "h - y = Suc (h - Suc y)" using True by simp
    ultimately show ?thesis using True
      by (subst random_rows_list.simps) (simp add: rf rp l)
  qed
qed

text \<open>The filter byte of a later row, for any invariant of the counter \<open>f\<close>.\<close>

lemma random_rows_list_filter_byte:
  assumes step: "\<And>y c. I y c \<Longrightarrow> I (Suc y) (snd (random_filter f y c))"
  shows "I y0 c \<Longrightarrow> y0 + k < h \<Longrightarrow>
         \<exists>c'. I (y0 + k) c' \<and>
              random_rows_list f w h y0 c r0 r1 ! (k * (pixel_rounds w + 1))
                = fst (random_filter f (y0 + k) c')"
proof (induction k arbitrary: y0 c r0 r1)
  case 0
  then have "y0 < h" by simp
  then have "random_rows_list f w h y0 c r0 r1 ! 0 = fst (random_filter f y0 c)"
    by (subst random_rows_list.simps) (simp split: prod.splits)
  then show ?case using 0 by auto
next
  case (Suc k)
  then have lt: "y0 < h" by simp
  obtain b c' where rf: "random_filter f y0 c = (b, c')" by (cases "random_filter f y0 c")
  obtain bs r0' r1' where rp: "random_pixels_list w r0 r1 = (bs, r0', r1')"
    by (cases "random_pixels_list w r0 r1") auto
  have l: "length bs = pixel_rounds w"
    using random_pixels_list_length[of w r0 r1] rp by simp
  have I': "I (Suc y0) c'" using step[OF Suc.prems(1)] rf by simp
  have "Suc y0 + k < h" using Suc.prems by simp
  from Suc.IH[OF I' this, of r0' r1'] obtain c'' where
    c'': "I (Suc y0 + k) c''"
      "random_rows_list f w h (Suc y0) c' r0' r1' ! (k * (pixel_rounds w + 1))
        = fst (random_filter f (Suc y0 + k) c'')" by blast
  have "random_rows_list f w h y0 c r0 r1
      = (b # bs) @ random_rows_list f w h (Suc y0) c' r0' r1'"
    using lt by (subst random_rows_list.simps) (simp add: rf rp)
  then have "random_rows_list f w h y0 c r0 r1 ! (Suc k * (pixel_rounds w + 1))
      = random_rows_list f w h (Suc y0) c' r0' r1' ! (k * (pixel_rounds w + 1))"
    by (simp add: nth_append l)
  then show ?case using c'' by auto
qed

lemma image_eq:
  "OptDePngRandomImage (Some a) m w h bpp f seed =
     Some (a, store_list a
       (random_rows_list f ((w * bpp) mod 2 ^ 32) h 0 f
          (seed mod length OptDePngRandomData)
          (((seed * 33) mod 2 ^ 32) mod length OptDePngRandomData)) m)"
  by (simp add: OptDePngRandomImage_def Let_def random_rows_eq)

section \<open>Determinism of the generator\<close>

lemma random_size_le:
  "random_size w h bpp \<le> h * (pixel_rounds ((w * bpp) mod 2 ^ 32) + 1)"
proof -
  have "random_size w h bpp \<le> ((w * bpp) mod 2 ^ 32 + 1) * h"
    unfolding random_size_def by (rule mod_less_eq_dividend)
  also have "\<dots> \<le> (pixel_rounds ((w * bpp) mod 2 ^ 32) + 1) * h"
    by (rule mult_right_mono) (simp_all add: pixel_rounds_def)
  finally show ?thesis by (simp add: mult.commute)
qed

text \<open>
  Claim C8.  \<open>OptDePngRandomImage\<close> is deterministic: two calls with the same
  \<open>(w, h, bpp, filter, seed)\<close> give the same bytes in the returned block, whatever the
  store held before and wherever \<open>malloc\<close> put the block.
\<close>

theorem random_image_deterministic:
  "image_buf (OptDePngRandomImage (Some a1) m1 w h bpp f seed) (random_size w h bpp)
   = image_buf (OptDePngRandomImage (Some a2) m2 w h bpp f seed) (random_size w h bpp)"
  using random_size_le[of w h bpp]
  by (simp add: image_eq image_buf_def buf_store_list random_rows_list_length)


section \<open>The filter bytes of the generated image\<close>

lemma random_filter_fixed:
  "f < 5 \<Longrightarrow> fst (random_filter f y c) = (if y = 0 then 0 else of_nat f)"
  by (simp add: random_filter_def kPngFilterCount_def)

lemma cycle_inv_step:
  assumes f: "5 \<le> f" "f < 2 ^ 32"
  shows "cycle_inv f y c \<Longrightarrow> cycle_inv f (Suc y) (snd (random_filter f y c))"
proof -
  assume a: "cycle_inv f y c"
  have wrap: "(f + 1) mod 2 ^ 32 = 0 \<or> 5 \<le> (f + 1) mod 2 ^ 32"
  proof (cases "f + 1 = 2 ^ 32")
    case True
    then show ?thesis by simp
  next
    case False
    then have "f + 1 < 2 ^ 32" using f(2) by simp
    then show ?thesis using f(1) by simp
  qed
  show ?thesis
  proof (cases "y \<le> 1")
    case True
    then have "y = 0 \<or> y = 1" by auto
    then show ?thesis using a f(1) wrap
      by (auto simp: cycle_inv_def random_filter_def kPngFilterCount_def Let_def)
  next
    case False
    then have c: "c = (y - 2) mod 5" "2 \<le> y" using a by (auto simp: cycle_inv_def)
    have "c < 5" using c by simp
    moreover have "y - 1 = Suc (y - 2)" using c by simp
    then have "(if c + 1 \<ge> 5 then 0 else c + 1) = (y - 1) mod 5"
      using \<open>c < 5\<close> by (auto simp: mod_Suc c)
    ultimately show ?thesis using c f(1)
      by (auto simp: cycle_inv_def random_filter_def kPngFilterCount_def Let_def)
  qed
qed

lemma random_filter_cycle:
  "0 < y \<Longrightarrow> c < 5 \<Longrightarrow> 5 \<le> f \<Longrightarrow>
   fst (random_filter f y c) = of_nat (if c + 1 \<ge> 5 then 0 else c + 1)"
  by (simp add: random_filter_def kPngFilterCount_def Let_def)

lemma cycle_inv_byte:
  assumes f: "5 \<le> f" "f < 2 ^ 32"
  shows "cycle_inv f y c \<Longrightarrow> 0 < y \<Longrightarrow> fst (random_filter f y c) = of_nat ((y - 1) mod 5)"
proof -
  assume a: "cycle_inv f y c" and y: "0 < y"
  have wrap: "(f + 1) mod 2 ^ 32 = 0 \<or> 5 \<le> (f + 1) mod 2 ^ 32"
  proof (cases "f + 1 = 2 ^ 32")
    case True
    then show ?thesis by simp
  next
    case False
    then have "f + 1 < 2 ^ 32" using f(2) by simp
    then show ?thesis using f(1) by simp
  qed
  show ?thesis
  proof (cases "y = 1")
    case True
    then show ?thesis using a f(1) wrap
      by (auto simp: cycle_inv_def random_filter_def kPngFilterCount_def Let_def)
  next
    case False
    then have c: "c = (y - 2) mod 5" "2 \<le> y" using a y by (auto simp: cycle_inv_def)
    have c5: "c < 5" using c by simp
    have "y - 1 = Suc (y - 2)" using c by simp
    then have e: "(if c + 1 \<ge> 5 then 0 else c + 1) = (y - 1) mod 5"
      using c5 by (auto simp: mod_Suc c)
    have "fst (random_filter f y c) = of_nat (if c + 1 \<ge> 5 then 0 else c + 1)"
      using y c5 f(1) by (intro random_filter_cycle) simp_all
    then show ?thesis by (simp only: e)
  qed
qed

text \<open>
  Claim C9.  \<open>w *= bpp\<close> is a \<open>uint32_t\<close> product, and a row of the image is its filter
  byte and that many pixel bytes, so row \<open>y\<close> starts at \<open>y * (w * bpp mod 2 ^ 32 + 1)\<close>.
  Whenever the row has a pixel byte at all, for every row \<open>y\<close> of the image, every
  \<open>uint32_t\<close> filter parameter and every seed: the filter byte of row 0 is 0 (None); the
  filter byte of a later row is the parameter when that is below 5, and otherwise it
  cycles through \<open>0, 1, 2, 3, 4\<close>, being \<open>(y - 1) mod 5\<close> in row \<open>y\<close>.
\<close>

theorem random_image_filter_bytes:
  assumes "0 < (w * bpp) mod 2 ^ 32" "y < h" "f < 2 ^ 32"
  shows "image_byte (OptDePngRandomImage (Some a) m w h bpp f seed)
           (y * ((w * bpp) mod 2 ^ 32 + 1))
         = Some (if y = 0 then 0 else if f < 5 then of_nat f else of_nat ((y - 1) mod 5))"
proof -
  let ?W = "(w * bpp) mod 2 ^ 32"
  let ?L = "random_rows_list f ?W h 0 f (seed mod length OptDePngRandomData)
          (((seed * 33) mod 2 ^ 32) mod length OptDePngRandomData)"
  have pr: "pixel_rounds ?W = ?W" using assms(1) by (simp add: pixel_rounds_def)
  have len: "length ?L = h * (?W + 1)"
    by (simp only: random_rows_list_length pr) simp
  have "y * (?W + 1) < h * (?W + 1)"
    using assms(2) by (intro mult_less_mono1) simp_all
  then have in_range: "y * (?W + 1) < length ?L" by (simp only: len)
  have byte: "?L ! (y * (?W + 1))
      = (if y = 0 then 0 else if f < 5 then of_nat f else of_nat ((y - 1) mod 5))"
  proof (cases "f < 5")
    case True
    have "0 + y < h" using assms(2) by simp
    from random_rows_list_filter_byte[where I = "\<lambda>_ _. True" and ?y0.0 = 0 and k = y
        and h = h and f = f and c = f and w = ?W
        and ?r0.0 = "seed mod length OptDePngRandomData"
        and ?r1.0 = "((seed * 33) mod 2 ^ 32) mod length OptDePngRandomData", OF _ _ this]
    obtain c' where "?L ! (y * (pixel_rounds ?W + 1)) = fst (random_filter f (0 + y) c')"
      by auto
    then have "?L ! (y * (?W + 1)) = fst (random_filter f y c')"
      unfolding pr by simp
    then show ?thesis using True by (simp only: random_filter_fixed) simp
  next
    case False
    then have f: "5 \<le> f" by simp
    have i0: "cycle_inv f 0 f" by (simp add: cycle_inv_def)
    have "0 + y < h" using assms(2) by simp
    from random_rows_list_filter_byte[where I = "cycle_inv f" and f = f and ?y0.0 = 0 and k = y
        and h = h and c = f and w = ?W
        and ?r0.0 = "seed mod length OptDePngRandomData"
        and ?r1.0 = "((seed * 33) mod 2 ^ 32) mod length OptDePngRandomData",
        OF cycle_inv_step[OF f assms(3)] i0 this]
    obtain c' where "cycle_inv f y c'"
       "?L ! (y * (pixel_rounds ?W + 1)) = fst (random_filter f y c')"
      by auto
    then have c': "cycle_inv f y c'" "?L ! (y * (?W + 1)) = fst (random_filter f y c')"
      unfolding pr by simp_all
    show ?thesis
    proof (cases "y = 0")
      case True
      then show ?thesis using c'(2) by (simp add: random_filter_def)
    next
      case False
      then have "fst (random_filter f y c') = of_nat ((y - 1) mod 5)"
        using c'(1) by (intro cycle_inv_byte[OF f assms(3)]) simp_all
      then show ?thesis using c'(2) False f by simp
    qed
  qed
  show ?thesis
    using store_list_nth[OF in_range, of a m] byte
    by (simp add: image_eq image_byte_def)
qed

theorem random_image_filter_bytes_witness:
  "(0::nat) < (3 * 2) mod 2 ^ 32 \<and> (3::nat) < 4 \<and> (5::nat) < 2 ^ 32
   \<and> image_byte (OptDePngRandomImage (Some 0) zero_mem 3 4 2 5 7) (3 * ((3 * 2) mod 2 ^ 32 + 1))
       = Some 2"
  using random_image_filter_bytes [of 3 2 3 4 5 0 zero_mem 7] by simp

end
